theory Spec2Isabelle
  imports Main "HOL-Library.Word"
begin

section \<open>Data model\<close>

text \<open>
  JSON values, as \<open>req.json()\<close> delivers a request body and as \<open>NextResponse.json\<close>
  takes a response body. An object is its list of members; \<open>map_of\<close> reads a member.
\<close>

datatype json =
    JNull
  | JBool bool
  | JNum int
  | JStr string
  | JArr "json list"
  | JObj "(string \<times> json) list"

text \<open>
  A document of the \<open>users\<close> collection (the \<open>UserDocument\<close> interfaces of the route
  files and the \<open>User\<close> type of \<open>userSchema.ts\<close>, restricted to the fields the routes
  read or write). \<open>oid\<close> is the document's \<open>_id\<close>, in the string form \<open>_id.toString()\<close>
  gives. An optional or nullable field is an \<open>option\<close>; a \<open>Date\<close> is its millisecond
  timestamp.
\<close>

record user =
  oid :: string
  email :: string
  name :: "string option"
  role :: "string option"
  password :: "string option"
  emailVerified :: bool
  otp :: "string option"
  otpExpiry :: "int option"
  createdAt :: "int option"
  updatedAt :: "int option"
  lastLogin :: "int option"

text \<open>The JWT payload (\<open>UserSession\<close> of the auth provider).\<close>

record UserSession =
  userId :: string
  sessEmail :: string
  sessName :: "string option"
  sessRole :: "string option"

text \<open>The three messages of \<open>lib/email/send-otp.ts\<close>, with their arguments.\<close>

datatype mail =
    OTPEmail string string string
  | VerificationSuccessEmail string string
  | PasswordResetSuccessEmail string string

text \<open>
  What the routes take from outside this repository: the process environment, the
  clock, the random source, and the libraries (the JavaScript runtime, zod, bcrypt,
  jsonwebtoken, the MongoDB driver, the mail transport). A library call that can throw
  returns an \<open>option\<close>, \<open>None\<close> for the throw.
  \<^item> \<open>clock env k\<close> is the value of the \<open>k\<close>-th reading of the clock (\<open>new Date()\<close>,
    \<open>Date.now()\<close>) made while a request is handled, counted from 0;
  \<^item> \<open>regex_i env p\<close> is the case-insensitive matcher of the pattern \<open>p\<close> that a
    \<open>$regex\<close> filter with \<open>$options: "i"\<close> runs, \<open>None\<close> when the store rejects \<open>p\<close>;
  \<^item> \<open>jwt_verify env t s\<close> is the payload of the token \<open>t\<close> under the secret \<open>s\<close>,
    \<open>None\<close> when \<open>jwt.verify\<close> throws; a payload with no \<open>userId\<close> has \<open>userId = []\<close>;
  \<^item> \<open>mkObjectId env s\<close> is \<open>new ObjectId(s)\<close>, again in string form;
  \<^item> \<open>transport_ok env m\<close> tells whether the mail transport delivers \<open>m\<close>.
\<close>

record env =
  JWT_SECRET :: "string option"
  NODE_ENV :: "string option"
  clock :: "nat \<Rightarrow> int"
  randomBytes :: "32 word option"
  decodeURIComponent :: "string \<Rightarrow> string option"
  encodeURIComponent :: "string \<Rightarrow> string"
  toLowerCase :: "string \<Rightarrow> string"
  zod_email :: "string \<Rightarrow> bool"
  regex_i :: "string \<Rightarrow> (string \<Rightarrow> bool) option"
  bcrypt_compare :: "string \<Rightarrow> string \<Rightarrow> bool"
  bcrypt_hash :: "string \<Rightarrow> string"
  jwt_sign :: "UserSession \<Rightarrow> string \<Rightarrow> string"
  jwt_verify :: "string \<Rightarrow> string \<Rightarrow> UserSession option"
  mkObjectId :: "string \<Rightarrow> string option"
  transport_ok :: "mail \<Rightarrow> bool"

text \<open>The \<open>token\<close> cookie a response sets, and the response itself.\<close>

record cookie =
  cvalue :: string
  httpOnly :: bool
  secure :: bool
  sameSite :: string
  cpath :: string
  maxAge :: "int option"
  expires :: "int option"

record response =
  status :: nat
  body :: json
  token_cookie :: "cookie option"

text \<open>
  What handling one request leaves behind: the response, the collection, the mails
  handed to the transport and delivered, and the milliseconds of \<open>setTimeout\<close> awaited.
\<close>

record outcome =
  resp :: response
  users :: "user list"
  sent :: "mail list"
  waited :: nat

section \<open>The store\<close>

text \<open>
  The collection is the list of its documents in natural order. \<open>findOne\<close> returns the
  first document the filter accepts, \<open>updateOne\<close> applies \<open>$set\<close> to that document,
  \<open>deleteOne\<close> removes it and reports \<open>deletedCount\<close>.
\<close>

definition findOne :: "(user \<Rightarrow> bool) \<Rightarrow> user list \<Rightarrow> user option" where
  "findOne flt db = find flt db"

fun updateOne :: "(user \<Rightarrow> bool) \<Rightarrow> (user \<Rightarrow> user) \<Rightarrow> user list \<Rightarrow> user list" where
  "updateOne flt upd [] = []"
| "updateOne flt upd (u # us) = (if flt u then upd u # us else u # updateOne flt upd us)"

fun deleteOne :: "(user \<Rightarrow> bool) \<Rightarrow> user list \<Rightarrow> nat \<times> user list" where
  "deleteOne flt [] = (0, [])"
| "deleteOne flt (u # us) =
     (if flt u then (1, us)
      else (case deleteOne flt us of (n, us') \<Rightarrow> (n, u # us')))"

text \<open>
  The lookup every route makes:
  \<^verbatim>\<open>findOne({ email: { $regex: `^${email}$`, $options: "i" } })\<close>.
  The outer \<open>None\<close> is the query failing.
\<close>

definition findOne_email :: "env \<Rightarrow> string \<Rightarrow> user list \<Rightarrow> user option option" where
  "findOne_email env e db =
     (case regex_i env (''^'' @ e @ ''$'') of
        None \<Rightarrow> None
      | Some matches \<Rightarrow> Some (findOne (\<lambda>u. matches (email u)) db))"

definition by_id :: "string \<Rightarrow> user \<Rightarrow> bool" where
  "by_id k u = (oid u = k)"

section \<open>Helpers shared by the routes\<close>

text \<open>JavaScript truthiness of an optional string: \<open>undefined\<close>, \<open>null\<close> and \<open>""\<close> are falsy.\<close>

definition falsy :: "string option \<Rightarrow> bool" where
  "falsy s = (s = None \<or> s = Some [])"

text \<open>\<open>user.name || null\<close>, \<open>user.role || "user"\<close> and \<open>user.name || "User"\<close>.\<close>

definition or_null :: "string option \<Rightarrow> string option" where
  "or_null s = (if falsy s then None else s)"

definition or_default :: "string option \<Rightarrow> string \<Rightarrow> string" where
  "or_default s d = (case s of None \<Rightarrow> d | Some v \<Rightarrow> if v = [] then d else v)"

definition json_of :: "string option \<Rightarrow> json" where
  "json_of s = (case s of None \<Rightarrow> JNull | Some v \<Rightarrow> JStr v)"

definition NextResponse_json :: "json \<Rightarrow> nat \<Rightarrow> response" where
  "NextResponse_json b s = \<lparr>status = s, body = b, token_cookie = None\<rparr>"

definition error_response :: "string \<Rightarrow> nat \<Rightarrow> response" where
  "error_response msg s = NextResponse_json (JObj [(''error'', JStr msg)]) s"

definition message_response :: "string \<Rightarrow> nat \<Rightarrow> response" where
  "message_response msg s = NextResponse_json (JObj [(''message'', JStr msg)]) s"

definition production :: "env \<Rightarrow> bool" where
  "production env = (NODE_ENV env = Some ''production'')"

definition generateJWT :: "env \<Rightarrow> string \<Rightarrow> user \<Rightarrow> string" where
  "generateJWT env secret u =
     jwt_sign env
       \<lparr>userId = oid u, sessEmail = email u, sessName = or_null (name u),
        sessRole = Some (or_default (role u) ''user'')\<rparr>
       secret"

definition auth_cookie :: "env \<Rightarrow> string \<Rightarrow> cookie" where
  "auth_cookie env token =
     \<lparr>cvalue = token, httpOnly = True, secure = production env, sameSite = ''lax'',
      cpath = ''/'', maxAge = Some (60 * 60 * 24 * 7), expires = None\<rparr>"

definition setAuthCookie :: "env \<Rightarrow> response \<Rightarrow> string \<Rightarrow> response" where
  "setAuthCookie env r token = r\<lparr>token_cookie := Some (auth_cookie env token)\<rparr>"

text \<open>
  The revocation the routes write out in place:
  \<^verbatim>\<open>response.cookies.set("token", "", { path: "/", expires: new Date(0), ... })\<close>.
\<close>

definition revoked_cookie :: "env \<Rightarrow> cookie" where
  "revoked_cookie env =
     \<lparr>cvalue = [], httpOnly = True, secure = production env, sameSite = ''lax'',
      cpath = ''/'', maxAge = None, expires = Some 0\<rparr>"

definition clearAuthCookie :: "env \<Rightarrow> response \<Rightarrow> response" where
  "clearAuthCookie env r = r\<lparr>token_cookie := Some (revoked_cookie env)\<rparr>"

definition user_json :: "user \<Rightarrow> json" where
  "user_json u =
     JObj [(''email'', JStr (email u)),
           (''id'', JStr (oid u)),
           (''name'', json_of (or_null (name u))),
           (''role'', JStr (or_default (role u) ''user'')),
           (''emailVerified'', JBool (emailVerified u))]"

text \<open>A mail is in the log when the transport delivered it; a failed send throws.\<close>

definition deliver :: "env \<Rightarrow> mail \<Rightarrow> mail list" where
  "deliver env m = (if transport_ok env m then [m] else [])"

definition unchanged :: "user list \<Rightarrow> response \<Rightarrow> outcome" where
  "unchanged db r = \<lparr>resp = r, users = db, sent = [], waited = 0\<rparr>"

section \<open>The verification route (\<open>POST /api/auth/verification/[email]/[type]\<close>)\<close>

text \<open>\<open>otpVerificationSchema\<close>: \<open>{ otp: z.string().length(6) }\<close>.\<close>

definition otpVerificationSchema :: "json \<Rightarrow> string option" where
  "otpVerificationSchema b =
     (case b of
        JObj kvs \<Rightarrow>
          (case map_of kvs ''otp'' of
             Some (JStr s) \<Rightarrow> if length s = 6 then Some s else None
           | _ \<Rightarrow> None)
      | _ \<Rightarrow> None)"

text \<open>\<open>passwordResetBodySchema\<close>: \<open>{ password: z.string().min(6) }\<close>.\<close>

definition passwordResetBodySchema :: "json \<Rightarrow> string option" where
  "passwordResetBodySchema b =
     (case b of
        JObj kvs \<Rightarrow>
          (case map_of kvs ''password'' of
             Some (JStr s) \<Rightarrow> if 6 \<le> length s then Some s else None
           | _ \<Rightarrow> None)
      | _ \<Rightarrow> None)"

text \<open>
  The validity test of the OTP branch:
  \<^verbatim>\<open>!user.otp || !user.otpExpiry || user.otp !== otp || new Date(user.otpExpiry) < new Date()\<close>.
\<close>

definition otp_rejected :: "user \<Rightarrow> string \<Rightarrow> int \<Rightarrow> bool" where
  "otp_rejected u submitted now =
     (falsy (otp u) \<or>
      (case otpExpiry u of
         None \<Rightarrow> True
       | Some e \<Rightarrow> otp u \<noteq> Some submitted \<or> e < now))"

text \<open>The \<open>$set\<close> of a successful signup verification.\<close>

definition set_verified :: "int \<Rightarrow> int \<Rightarrow> user \<Rightarrow> user" where
  "set_verified t1 t2 u =
     u\<lparr>emailVerified := True, otp := None, otpExpiry := None,
       lastLogin := Some t1, updatedAt := Some t2\<rparr>"

text \<open>The \<open>$set\<close> of a password reset.\<close>

definition set_password :: "string \<Rightarrow> int \<Rightarrow> int \<Rightarrow> user \<Rightarrow> user" where
  "set_password h t1 t2 u =
     u\<lparr>password := Some h, otp := None, otpExpiry := None, emailVerified := True,
       lastLogin := Some t1, updatedAt := Some t2\<rparr>"

text \<open>The branch taken when the body parses as an OTP.\<close>

definition otp_flow :: "env \<Rightarrow> user list \<Rightarrow> string \<Rightarrow> string \<Rightarrow> string \<Rightarrow> user \<Rightarrow> string \<Rightarrow> outcome" where
  "otp_flow env db secret e type u submitted =
     (if type = ''signup'' \<and> emailVerified u then
        unchanged db
          (setAuthCookie env
             (NextResponse_json
                (JObj [(''user'', user_json u), (''status'', JStr ''already_verified'')]) 200)
             (generateJWT env secret u))
      else if otp_rejected u submitted (clock env 0) then
        unchanged db (error_response ''Invalid or expired OTP.'' 400)
      else if type = ''signup'' then
        (let db' = updateOne (by_id (oid u)) (set_verified (clock env 1) (clock env 2)) db;
             mails = deliver env (VerificationSuccessEmail e (or_default (name u) ''User''))
         in case findOne (by_id (oid u)) db' of
              None \<Rightarrow>
                \<lparr>resp = error_response ''Failed to retrieve user data after verification.'' 500,
                 users = db', sent = mails, waited = 0\<rparr>
            | Some updatedUser \<Rightarrow>
                \<lparr>resp = setAuthCookie env
                          (NextResponse_json (JObj [(''user'', user_json updatedUser)]) 200)
                          (generateJWT env secret updatedUser),
                 users = db', sent = mails, waited = 0\<rparr>)
      else if type = ''password-reset'' then
        unchanged db (message_response ''OTP verified. Proceed to set new password.'' 200)
      else
        unchanged db (error_response ''Invalid verification type.'' 400))"

text \<open>\<open>user.password && await bcrypt.compare(newPassword, user.password)\<close>.\<close>

definition same_password :: "env \<Rightarrow> user \<Rightarrow> string \<Rightarrow> bool" where
  "same_password env u newPassword =
     (case password u of
        None \<Rightarrow> False
      | Some h \<Rightarrow> h \<noteq> [] \<and> bcrypt_compare env newPassword h)"

text \<open>
  The mails of the password branch: both sends are in one \<open>try\<close>, so a failure of the
  first skips the second.
\<close>

definition reset_mails :: "env \<Rightarrow> string \<Rightarrow> user \<Rightarrow> mail list" where
  "reset_mails env e u =
     (let m1 = VerificationSuccessEmail e (or_default (name u) ''User'');
          m2 = PasswordResetSuccessEmail e (or_default (name u) ''User'')
      in if emailVerified u then deliver env m2
         else if transport_ok env m1 then m1 # deliver env m2
         else [])"

text \<open>The branch taken when the body parses as a new password.\<close>

definition password_flow :: "env \<Rightarrow> user list \<Rightarrow> string \<Rightarrow> string \<Rightarrow> user \<Rightarrow> string \<Rightarrow> outcome" where
  "password_flow env db secret e u newPassword =
     (if same_password env u newPassword then
        unchanged db (error_response ''New password cannot be the same as the old password.'' 400)
      else
        (let hashedPassword = bcrypt_hash env newPassword;
             db' = updateOne (by_id (oid u))
                     (set_password hashedPassword (clock env 0) (clock env 1)) db;
             mails = reset_mails env e u
         in case findOne (by_id (oid u)) db' of
              None \<Rightarrow>
                \<lparr>resp = error_response ''Failed to retrieve user data after password reset.'' 500,
                 users = db', sent = mails, waited = 0\<rparr>
            | Some updatedUser \<Rightarrow>
                \<lparr>resp = setAuthCookie env
                          (NextResponse_json (JObj [(''user'', user_json updatedUser)]) 200)
                          (generateJWT env secret updatedUser),
                 users = db', sent = mails, waited = 0\<rparr>))"

text \<open>
  The handler. \<open>rawEmail\<close> and \<open>type\<close> are the route parameters, \<open>req_json\<close> is the result
  of \<open>req.json()\<close> (\<open>None\<close> when it throws). Every throw inside the \<open>try\<close> ends in the
  \<open>catch\<close>, which answers 500.
\<close>

definition verification_POST ::
  "env \<Rightarrow> user list \<Rightarrow> string \<Rightarrow> string \<Rightarrow> json option \<Rightarrow> outcome" where
  "verification_POST env db rawEmail type req_json =
     (if falsy (JWT_SECRET env) then
        unchanged db (error_response ''Server configuration error.'' 500)
      else
        (case (JWT_SECRET env, decodeURIComponent env rawEmail, req_json) of
           (Some secret, Some decoded, Some b) \<Rightarrow>
             (let e = toLowerCase env decoded in
              case findOne_email env e db of
                None \<Rightarrow> unchanged db (error_response ''Internal server error.'' 500)
              | Some None \<Rightarrow> unchanged db (error_response ''User not found.'' 404)
              | Some (Some u) \<Rightarrow>
                  (case otpVerificationSchema b of
                     Some submitted \<Rightarrow> otp_flow env db secret e type u submitted
                   | None \<Rightarrow>
                       (case passwordResetBodySchema b of
                          Some newPassword \<Rightarrow> password_flow env db secret e u newPassword
                        | None \<Rightarrow>
                            unchanged db
                              (error_response ''Invalid request. Missing OTP or new password.'' 400))))
         | _ \<Rightarrow> unchanged db (error_response ''Internal server error.'' 500)))"

section \<open>The delete-account route (\<open>DELETE /api/auth/delete-account\<close>)\<close>

text \<open>
  A request carries the \<open>token\<close> cookie, if any, and whatever body the client sends;
  the handler reads the cookie only.
\<close>

record delete_request =
  cookie_token :: "string option"
  client_body :: "json option"

definition delete_account_DELETE :: "env \<Rightarrow> user list \<Rightarrow> delete_request \<Rightarrow> outcome" where
  "delete_account_DELETE env db req =
     (if falsy (JWT_SECRET env) then
        unchanged db (error_response ''Server configuration error.'' 500)
      else if falsy (cookie_token req) then
        unchanged db (error_response ''Authentication required.'' 401)
      else
        (case (JWT_SECRET env, cookie_token req) of
           (Some secret, Some token) \<Rightarrow>
             (case jwt_verify env token secret of
                None \<Rightarrow>
                  unchanged db
                    (clearAuthCookie env
                       (error_response ''Invalid or expired session. Please sign in again.'' 401))
              | Some decodedToken \<Rightarrow>
                  if userId decodedToken = [] then
                    unchanged db
                      (clearAuthCookie env
                         (error_response ''Invalid or expired session. Please sign in again.'' 401))
                  else
                    (case mkObjectId env (userId decodedToken) of
                       None \<Rightarrow>
                         unchanged db
                           (error_response ''Failed to delete account due to a database issue.'' 500)
                     | Some objectIdToDelete \<Rightarrow>
                         (case deleteOne (by_id objectIdToDelete) db of
                            (deletedCount, db') \<Rightarrow>
                              if deletedCount = 0 then
                                unchanged db'
                                  (clearAuthCookie env
                                     (error_response ''Account not found or already deleted.'' 404))
                              else
                                unchanged db'
                                  (clearAuthCookie env
                                     (message_response ''Account deleted successfully.'' 200)))))
         | _ \<Rightarrow> unchanged db (error_response ''An internal server error occurred.'' 500)))"

text \<open>
  The account id the route acts on: the \<open>userId\<close> of the payload of the verified
  \<open>token\<close> cookie, as an \<open>ObjectId\<close>.
\<close>

definition session_target :: "env \<Rightarrow> string \<Rightarrow> delete_request \<Rightarrow> string option" where
  "session_target env secret req =
     (case cookie_token req of
        None \<Rightarrow> None
      | Some t \<Rightarrow>
          if t = [] then None
          else (case jwt_verify env t secret of
                  None \<Rightarrow> None
                | Some decodedToken \<Rightarrow>
                    if userId decodedToken = [] then None
                    else mkObjectId env (userId decodedToken)))"

section \<open>The OTP generator (\<open>lib/otp/genarate-otp.ts\<close>)\<close>

fun toString_nat :: "nat \<Rightarrow> string" where
  "toString_nat n =
     (if n < 10 then [char_of (48 + n)]
      else toString_nat (n div 10) @ [char_of (48 + n mod 10)])"

declare toString_nat.simps [simp del]

definition padStart :: "nat \<Rightarrow> char \<Rightarrow> string \<Rightarrow> string" where
  "padStart n c s = replicate (n - length s) c @ s"

text \<open>
  \<^verbatim>\<open>parseInt(crypto.randomBytes(4).toString("hex"), 16) % 1000000\<close>, padded to six
  digits; a failure of the random source is thrown on.
\<close>

definition generateOTP :: "env \<Rightarrow> string option" where
  "generateOTP env =
     (case randomBytes env of
        None \<Rightarrow> None
      | Some bytes \<Rightarrow> Some (padStart 6 (CHR ''0'') (toString_nat (unat bytes mod 1000000))))"

text \<open>The \<open>$set\<close> that issues a challenge: \<open>{ otp, otpExpiry, updatedAt }\<close>.\<close>

definition set_otp :: "string \<Rightarrow> int \<Rightarrow> int \<Rightarrow> user \<Rightarrow> user" where
  "set_otp newOtp expiry t u =
     u\<lparr>otp := Some newOtp, otpExpiry := Some expiry, updatedAt := Some t\<rparr>"

section \<open>Request validation (zod)\<close>

definition zod_type_name :: "json \<Rightarrow> string" where
  "zod_type_name j =
     (case j of
        JNull \<Rightarrow> ''null'' | JBool _ \<Rightarrow> ''boolean'' | JNum _ \<Rightarrow> ''number''
      | JStr _ \<Rightarrow> ''string'' | JArr _ \<Rightarrow> ''array'' | JObj _ \<Rightarrow> ''object'')"

text \<open>\<open>z.string()\<close> on a member: the string, or the message of the first issue.\<close>

definition z_string :: "string \<Rightarrow> json option \<Rightarrow> string + string" where
  "z_string expected v =
     (case v of
        None \<Rightarrow> Inl ''Required''
      | Some (JStr s) \<Rightarrow> Inr s
      | Some j \<Rightarrow> Inl (''Expected '' @ expected @ '', received '' @ zod_type_name j))"

definition z_email :: "env \<Rightarrow> string \<Rightarrow> json option \<Rightarrow> string + string" where
  "z_email env msg v =
     (case z_string ''string'' v of
        Inl m \<Rightarrow> Inl m
      | Inr s \<Rightarrow> if zod_email env s then Inr s else Inl msg)"

definition z_min :: "nat \<Rightarrow> string \<Rightarrow> json option \<Rightarrow> string + string" where
  "z_min n msg v =
     (case z_string ''string'' v of
        Inl m \<Rightarrow> Inl m
      | Inr s \<Rightarrow> if n \<le> length s then Inr s else Inl msg)"

definition z_object :: "json \<Rightarrow> string + (string \<times> json) list" where
  "z_object b =
     (case b of
        JObj kvs \<Rightarrow> Inr kvs
      | j \<Rightarrow> Inl (''Expected object, received '' @ zod_type_name j))"

text \<open>
  \<open>signinSchema\<close>, \<open>resendOtpSchema\<close> and \<open>forgotPasswordSchema\<close>: the parsed data, or
  \<open>parsed.error.errors[0].message\<close>.
\<close>

definition signinSchema :: "env \<Rightarrow> json \<Rightarrow> string + (string \<times> string)" where
  "signinSchema env b =
     (case z_object b of
        Inl m \<Rightarrow> Inl m
      | Inr kvs \<Rightarrow>
          (case z_email env ''Invalid email format.'' (map_of kvs ''email'') of
             Inl m \<Rightarrow> Inl m
           | Inr e \<Rightarrow>
               (case z_min 6 ''Password must be at least 6 characters long.''
                       (map_of kvs ''password'') of
                  Inl m \<Rightarrow> Inl m
                | Inr p \<Rightarrow> Inr (e, p))))"

definition z_type :: "json option \<Rightarrow> string + string" where
  "z_type v =
     (case z_string (CHR 0x27 # ''signup'' @ CHR 0x27 # '' | '' @ CHR 0x27 # ''password-reset'' @ [CHR 0x27]) v of
        Inl m \<Rightarrow> Inl m
      | Inr s \<Rightarrow>
          if s = ''signup'' \<or> s = ''password-reset'' then Inr s
          else Inl (''Invalid verification type. Must be '' @ CHR 0x27 # ''signup'' @ CHR 0x27 # '' or ''
                    @ CHR 0x27 # ''password-reset'' @ CHR 0x27 # ''.''))"

definition resendOtpSchema :: "env \<Rightarrow> json \<Rightarrow> string + (string \<times> string)" where
  "resendOtpSchema env b =
     (case z_object b of
        Inl m \<Rightarrow> Inl m
      | Inr kvs \<Rightarrow>
          (case z_email env ''Invalid email format.'' (map_of kvs ''email'') of
             Inl m \<Rightarrow> Inl m
           | Inr e \<Rightarrow>
               (case z_type (map_of kvs ''type'') of
                  Inl m \<Rightarrow> Inl m
                | Inr t \<Rightarrow> Inr (e, t))))"

definition forgotPasswordSchema :: "env \<Rightarrow> json \<Rightarrow> string + string" where
  "forgotPasswordSchema env b =
     (case z_object b of
        Inl m \<Rightarrow> Inl m
      | Inr kvs \<Rightarrow> z_email env ''Invalid email format.'' (map_of kvs ''email''))"

section \<open>The resend-otp route (\<open>POST /api/auth/resend-otp\<close>)\<close>

definition resend_message :: string where
  "resend_message = ''If an account with that email exists, a new OTP has been sent.''"

definition resend_otp_POST :: "env \<Rightarrow> user list \<Rightarrow> json option \<Rightarrow> outcome" where
  "resend_otp_POST env db req_json =
     (case req_json of
        None \<Rightarrow> unchanged db (error_response ''Internal server error.'' 500)
      | Some b \<Rightarrow>
          (case resendOtpSchema env b of
             Inl m \<Rightarrow> unchanged db (error_response m 400)
           | Inr (e, type) \<Rightarrow>
               (case findOne_email env e db of
                  None \<Rightarrow> unchanged db (error_response ''Internal server error.'' 500)
                | Some None \<Rightarrow>
                    \<lparr>resp = message_response resend_message 200,
                     users = db, sent = [], waited = 1000\<rparr>
                | Some (Some u) \<Rightarrow>
                    if type = ''signup'' \<and> emailVerified u then
                      \<lparr>resp = message_response resend_message 200,
                       users = db, sent = [], waited = 1000\<rparr>
                    else
                      (case generateOTP env of
                         None \<Rightarrow>
                           \<lparr>resp = error_response ''Internal server error.'' 500,
                            users = db, sent = [], waited = 1000\<rparr>
                       | Some newOtp \<Rightarrow>
                           \<lparr>resp = message_response resend_message 200,
                            users = updateOne (by_id (oid u))
                                      (set_otp newOtp (clock env 0 + 10 * 60 * 1000) (clock env 1)) db,
                            sent = deliver env (OTPEmail (email u) newOtp type),
                            waited = 1000\<rparr>))))"

section \<open>The forgot-password route (\<open>POST /api/auth/forgot-password\<close>)\<close>

definition forgot_message :: string where
  "forgot_message = ''If your email is registered, a password reset code has been sent.''"

definition forgot_password_POST :: "env \<Rightarrow> user list \<Rightarrow> json option \<Rightarrow> outcome" where
  "forgot_password_POST env db req_json =
     (case req_json of
        None \<Rightarrow> unchanged db (error_response ''Internal server error. Please try again later.'' 500)
      | Some b \<Rightarrow>
          (case forgotPasswordSchema env b of
             Inl m \<Rightarrow> unchanged db (error_response m 400)
           | Inr e \<Rightarrow>
               (case findOne_email env e db of
                  None \<Rightarrow>
                    unchanged db (error_response ''Internal server error. Please try again later.'' 500)
                | Some None \<Rightarrow> unchanged db (message_response forgot_message 200)
                | Some (Some u) \<Rightarrow>
                    (case generateOTP env of
                       None \<Rightarrow>
                         unchanged db
                           (error_response ''Internal server error. Please try again later.'' 500)
                     | Some newOtp \<Rightarrow>
                         \<lparr>resp = message_response forgot_message 200,
                          users = updateOne (by_id (oid u))
                                    (set_otp newOtp (clock env 0 + 10 * 60 * 1000) (clock env 1)) db,
                          sent = deliver env (OTPEmail (email u) newOtp ''password-reset''),
                          waited = 0\<rparr>))))"

section \<open>The sign-in route (\<open>POST /api/auth/signin\<close>)\<close>

text \<open>
  The \<open>$set\<close> of a successful sign-in: \<open>{ lastLogin, updatedAt }\<close>. The route signs
  its token and sets its cookie in place; payload and cookie attributes are those of
  \<open>generateJWT\<close> and \<open>setAuthCookie\<close> of the verification route.
\<close>

definition set_login :: "int \<Rightarrow> int \<Rightarrow> user \<Rightarrow> user" where
  "set_login t1 t2 u = u\<lparr>lastLogin := Some t1, updatedAt := Some t2\<rparr>"

definition signin_POST :: "env \<Rightarrow> user list \<Rightarrow> json option \<Rightarrow> outcome" where
  "signin_POST env db req_json =
     (if falsy (JWT_SECRET env) then
        unchanged db (error_response ''Server configuration error.'' 500)
      else
        (case (JWT_SECRET env, req_json) of
           (Some secret, Some b) \<Rightarrow>
             (case signinSchema env b of
                Inl m \<Rightarrow> unchanged db (error_response m 400)
              | Inr (e, pw) \<Rightarrow>
                  (case findOne_email env e db of
                     None \<Rightarrow> unchanged db (error_response ''Internal server error.'' 500)
                   | Some None \<Rightarrow> unchanged db (error_response ''Invalid credentials'' 401)
                   | Some (Some u) \<Rightarrow>
                       (case password u of
                          None \<Rightarrow>
                            unchanged db
                              (error_response
                                 ''Invalid credentials or account created via different method.'' 401)
                        | Some h \<Rightarrow>
                            if h = [] then
                              unchanged db
                                (error_response
                                   ''Invalid credentials or account created via different method.'' 401)
                            else if \<not> bcrypt_compare env pw h then
                              unchanged db (error_response ''Invalid credentials'' 401)
                            else if \<not> emailVerified u then
                              (case generateOTP env of
                                 None \<Rightarrow> unchanged db (error_response ''Internal server error.'' 500)
                               | Some newOtp \<Rightarrow>
                                   \<lparr>resp = NextResponse_json
                                      (JObj [(''error'', JStr ''Email not verified. A new verification code has been sent to your email address.''),
                                             (''redirect'', JBool True),
                                             (''url'', JStr (''/verification/'' @ encodeURIComponent env (email u) @ ''/signup''))])
                                      403,
                                    users = updateOne (by_id (oid u))
                                              (set_otp newOtp (clock env 0 + 10 * 60 * 1000) (clock env 1)) db,
                                    sent = deliver env (OTPEmail (email u) newOtp ''signup''),
                                    waited = 0\<rparr>)
                            else
                              \<lparr>resp = setAuthCookie env
                                        (message_response ''Signed in successfully'' 200)
                                        (generateJWT env secret u),
                               users = updateOne (by_id (oid u))
                                         (set_login (clock env 0) (clock env 1)) db,
                               sent = [], waited = 0\<rparr>)))
         | _ \<Rightarrow> unchanged db (error_response ''Internal server error.'' 500)))"

section \<open>The lifecycle operations together\<close>

datatype request =
    SignIn "json option"
  | Verification string string "json option"
  | ResendOtp "json option"
  | ForgotPassword "json option"
  | DeleteAccount delete_request

fun handle :: "env \<Rightarrow> user list \<Rightarrow> request \<Rightarrow> outcome" where
  "handle env db (SignIn b) = signin_POST env db b"
| "handle env db (Verification rawEmail type b) = verification_POST env db rawEmail type b"
| "handle env db (ResendOtp b) = resend_otp_POST env db b"
| "handle env db (ForgotPassword b) = forgot_password_POST env db b"
| "handle env db (DeleteAccount r) = delete_account_DELETE env db r"

text \<open>The invariant of the data model: \<open>otp\<close> and \<open>otpExpiry\<close> are null together.\<close>

definition otp_paired :: "user \<Rightarrow> bool" where
  "otp_paired u = ((otp u = None) = (otpExpiry u = None))"

text \<open>
  One step of the collection, seen through the two fields: every document after the
  step carries the \<open>otp\<close> and \<open>otpExpiry\<close> of a document before it, or has both
  cleared, or has both set.
\<close>

definition otp_step :: "user list \<Rightarrow> user list \<Rightarrow> bool" where
  "otp_step db db' =
     list_all (\<lambda>v'. list_ex (\<lambda>v. otp v' = otp v \<and> otpExpiry v' = otpExpiry v) db
                   \<or> (otp v' = None \<and> otpExpiry v' = None)
                   \<or> (otp v' \<noteq> None \<and> otpExpiry v' \<noteq> None)) db'"

section \<open>A sample environment and collection\<close>

text \<open>
  Concrete values on which the theorems below are instantiated: an environment whose
  libraries are simple stand-ins (a matcher that accepts exactly the address in the
  pattern, a hash that prefixes the password, a token that carries the user id), and a
  collection of three accounts: \<open>alice\<close> is unverified with an outstanding challenge
  that expires at the very instant of the first clock reading, \<open>bob\<close> is verified
  with no challenge, \<open>carol\<close> signed up through a provider and has no password.
\<close>

definition env0 :: env where
  "env0 =
     \<lparr>JWT_SECRET = Some ''s3cret'', NODE_ENV = Some ''production'',
      clock = (\<lambda>k. 1000 + int k), randomBytes = Some 123456789,
      decodeURIComponent = Some, encodeURIComponent = (\<lambda>s. s), toLowerCase = (\<lambda>s. s),
      zod_email = (\<lambda>s. CHR ''@'' \<in> set s),
      regex_i = (\<lambda>p. Some (\<lambda>s. p = ''^'' @ s @ ''$'')),
      bcrypt_compare = (\<lambda>p h. h = ''bcrypt:'' @ p), bcrypt_hash = (\<lambda>p. ''bcrypt:'' @ p),
      jwt_sign = (\<lambda>s k. ''jwt:'' @ userId s),
      jwt_verify = (\<lambda>t k. if take 4 t = ''jwt:''
                            then Some \<lparr>userId = drop 4 t, sessEmail = [], sessName = None,
                                       sessRole = None\<rparr>
                            else None),
      mkObjectId = Some, transport_ok = (\<lambda>m. True)\<rparr>"

definition alice :: user where
  "alice =
     \<lparr>oid = ''65a1'', email = ''a@b.com'', name = Some ''Alice'', role = None,
      password = Some ''bcrypt:secret1'', emailVerified = False,
      otp = Some ''123456'', otpExpiry = Some 1000,
      createdAt = Some 0, updatedAt = Some 0, lastLogin = None\<rparr>"

definition bob :: user where
  "bob =
     \<lparr>oid = ''65b2'', email = ''bob@b.com'', name = Some ''Bob'', role = Some ''admin'',
      password = Some ''bcrypt:hunter22'', emailVerified = True,
      otp = None, otpExpiry = None,
      createdAt = Some 0, updatedAt = Some 5, lastLogin = Some 5\<rparr>"

definition carol :: user where
  "carol =
     \<lparr>oid = ''65c3'', email = ''carol@b.com'', name = None, role = None,
      password = None, emailVerified = True,
      otp = None, otpExpiry = None,
      createdAt = Some 0, updatedAt = Some 0, lastLogin = None\<rparr>"

definition sample_db :: "user list" where
  "sample_db = [alice, bob, carol]"

definition otp_body :: "string \<Rightarrow> json" where
  "otp_body s = JObj [(''otp'', JStr s)]"

definition password_body :: "string \<Rightarrow> json" where
  "password_body s = JObj [(''password'', JStr s)]"

definition signin_body :: "string \<Rightarrow> string \<Rightarrow> json" where
  "signin_body e p = JObj [(''email'', JStr e), (''password'', JStr p)]"

definition resend_body :: "string \<Rightarrow> string \<Rightarrow> json" where
  "resend_body e t = JObj [(''email'', JStr e), (''type'', JStr t)]"

definition forgot_body :: "string \<Rightarrow> json" where
  "forgot_body e = JObj [(''email'', JStr e)]"

section \<open>Facts about the store\<close>

lemma find_in_set: "find P xs = Some x \<Longrightarrow> x \<in> set xs \<and> P x"
  by (induction xs) (auto split: if_splits)

text \<open>With unique ids, \<open>updateOne\<close> by id rewrites the one document that has the id.\<close>

lemma updateOne_distinct:
  "distinct (map oid db) \<Longrightarrow>
   updateOne (by_id k) f db = map (\<lambda>v. if oid v = k then f v else v) db"
proof (induction db)
  case Nil
  then show ?case by simp
next
  case (Cons u us)
  show ?case
  proof (cases "oid u = k")
    case True
    with Cons.prems have "k \<notin> oid ` set us" by simp
    then have "\<forall>v \<in> set us. oid v \<noteq> k" by blast
    then have "map (\<lambda>v. if oid v = k then f v else v) us = us"
      by (induction us) auto
    with True show ?thesis by (simp add: by_id_def)
  next
    case False
    with Cons show ?thesis by (simp add: by_id_def)
  qed
qed

lemma find_by_id_distinct:
  "distinct (map oid db) \<Longrightarrow> u \<in> set db \<Longrightarrow> find (by_id (oid u)) db = Some u"
  by (induction db) (auto simp: by_id_def)

lemma find_map_preserved:
  "(\<And>v. P (g v) = P v) \<Longrightarrow> find P (map g db) = map_option g (find P db)"
  by (induction db) auto

lemma replace_found:
  assumes "distinct (map oid db)" and "u \<in> set db"
  shows "map (\<lambda>v. if oid v = oid u then f v else v) db = map (\<lambda>v. if v = u then f u else v) db"
proof (rule map_cong [OF refl])
  fix v assume "v \<in> set db"
  with assms have "oid v = oid u \<longleftrightarrow> v = u"
    by (auto simp: distinct_map inj_on_def)
  then show "(if oid v = oid u then f v else v) = (if v = u then f u else v)" by auto
qed

lemma findOne_email_in_set:
  "findOne_email env e db = Some (Some u) \<Longrightarrow> u \<in> set db"
  by (auto simp: findOne_email_def findOne_def split: option.splits dest: find_in_set)

text \<open>An update that keeps the address leaves the lookup by address on the same account.\<close>

lemma findOne_email_after_update:
  assumes "findOne_email env e db = Some (Some u)" and "distinct (map oid db)"
    and "\<And>v. email (f v) = email v" and "regex_i env' = regex_i env"
  shows "findOne_email env' e (updateOne (by_id (oid u)) f db) = Some (Some (f u))"
proof -
  from assms(1) obtain m where m: "regex_i env (''^'' @ e @ ''$'') = Some m"
    and f: "find (\<lambda>v. m (email v)) db = Some u"
    by (auto simp: findOne_email_def findOne_def split: option.splits)
  have "find (\<lambda>v. m (email v)) (map (\<lambda>v. if oid v = oid u then f v else v) db)
        = map_option (\<lambda>v. if oid v = oid u then f v else v) (find (\<lambda>v. m (email v)) db)"
    by (rule find_map_preserved) (simp add: assms(3))
  with f m assms(2,4) show ?thesis
    by (simp add: findOne_email_def findOne_def updateOne_distinct)
qed

lemma findOne_by_id_after_update:
  assumes "u \<in> set db" and "distinct (map oid db)" and "\<And>v. oid (f v) = oid v"
  shows "findOne (by_id (oid u)) (updateOne (by_id (oid u)) f db) = Some (f u)"
proof -
  have "find (by_id (oid u)) (map (\<lambda>v. if oid v = oid u then f v else v) db)
        = map_option (\<lambda>v. if oid v = oid u then f v else v) (find (by_id (oid u)) db)"
    by (rule find_map_preserved) (simp add: by_id_def assms(3))
  with assms(1,2) show ?thesis
    by (simp add: findOne_def updateOne_distinct find_by_id_distinct)
qed

section \<open>Facts about the sample values\<close>

lemma env0_secret: "JWT_SECRET env0 = Some ''s3cret''"
  by (simp add: env0_def)

lemma env0_decode: "decodeURIComponent env0 s = Some s"
  by (simp add: env0_def)

lemma env0_lower: "toLowerCase env0 s = s"
  by (simp add: env0_def)

lemma sample_distinct: "distinct (map oid sample_db)"
  by (simp add: sample_db_def alice_def bob_def carol_def)

lemma sample_find_alice: "findOne_email env0 ''a@b.com'' sample_db = Some (Some alice)"
  by (simp add: findOne_email_def findOne_def env0_def sample_db_def alice_def)

lemma sample_find_bob: "findOne_email env0 ''bob@b.com'' sample_db = Some (Some bob)"
  by (simp add: findOne_email_def findOne_def env0_def sample_db_def alice_def bob_def)

lemma sample_find_carol: "findOne_email env0 ''carol@b.com'' sample_db = Some (Some carol)"
  by (simp add: findOne_email_def findOne_def env0_def sample_db_def alice_def bob_def carol_def)

lemma sample_find_nobody: "findOne_email env0 ''dave@b.com'' sample_db = Some None"
  by (simp add: findOne_email_def findOne_def env0_def sample_db_def alice_def bob_def carol_def)

lemma otp_body_parses: "length s = 6 \<Longrightarrow> otpVerificationSchema (otp_body s) = Some s"
  by (simp add: otpVerificationSchema_def otp_body_def)

lemma password_body_parses:
  "6 \<le> length s \<Longrightarrow> passwordResetBodySchema (password_body s) = Some s"
  by (simp add: passwordResetBodySchema_def password_body_def)

lemma password_body_no_otp: "otpVerificationSchema (password_body s) = None"
  by (simp add: otpVerificationSchema_def password_body_def)

section \<open>The verification route: reduction to its two branches\<close>

lemma verification_POST_otp:
  assumes "JWT_SECRET env = Some secret" "secret \<noteq> []"
    and "decodeURIComponent env rawEmail = Some decoded"
    and "findOne_email env (toLowerCase env decoded) db = Some (Some u)"
    and "otpVerificationSchema b = Some submitted"
  shows "verification_POST env db rawEmail type (Some b) =
         otp_flow env db secret (toLowerCase env decoded) type u submitted"
  using assms by (simp add: verification_POST_def falsy_def)

lemma verification_POST_password:
  assumes "JWT_SECRET env = Some secret" "secret \<noteq> []"
    and "decodeURIComponent env rawEmail = Some decoded"
    and "findOne_email env (toLowerCase env decoded) db = Some (Some u)"
    and "otpVerificationSchema b = None"
    and "passwordResetBodySchema b = Some newPassword"
  shows "verification_POST env db rawEmail type (Some b) =
         password_flow env db secret (toLowerCase env decoded) u newPassword"
  using assms by (simp add: verification_POST_def falsy_def)

lemma otp_length: "otpVerificationSchema b = Some submitted \<Longrightarrow> length submitted = 6"
  by (auto simp: otpVerificationSchema_def split: json.splits option.splits if_splits)

text \<open>
  The test of the route, in the words of the specification. A stored empty \<open>otp\<close> is
  falsy, and it also differs from any submitted six-character code.
\<close>

lemma otp_rejected_iff:
  assumes "length submitted = 6"
  shows "otp_rejected u submitted now =
         (otp u = None \<or> otpExpiry u = None \<or> otp u \<noteq> Some submitted \<or>
          (case otpExpiry u of None \<Rightarrow> False | Some e \<Rightarrow> e < now))"
  using assms by (auto simp: otp_rejected_def falsy_def split: option.splits)

lemma set_verified_fun:
  "set_verified t1 t2 =
     (\<lambda>v. v\<lparr>emailVerified := True, otp := None, otpExpiry := None,
            lastLogin := Some t1, updatedAt := Some t2\<rparr>)"
  by (rule ext) (simp add: set_verified_def)

lemma set_password_fun:
  "set_password h t1 t2 =
     (\<lambda>v. v\<lparr>password := Some h, otp := None, otpExpiry := None, emailVerified := True,
            lastLogin := Some t1, updatedAt := Some t2\<rparr>)"
  by (rule ext) (simp add: set_password_def)

lemma generateJWT_clock [simp]: "generateJWT (env\<lparr>clock := c\<rparr>) = generateJWT env"
  by (intro ext) (simp add: generateJWT_def)

lemma auth_cookie_clock [simp]: "auth_cookie (env\<lparr>clock := c\<rparr>) = auth_cookie env"
  by (intro ext) (simp add: auth_cookie_def production_def)

text \<open>The cookie and the profile of a response, written out.\<close>

lemma session_cookie_explicit:
  "auth_cookie env (generateJWT env secret u) =
     \<lparr>cvalue = jwt_sign env
                 \<lparr>userId = oid u, sessEmail = email u,
                  sessName = (case name u of None \<Rightarrow> None | Some n \<Rightarrow> if n = [] then None else Some n),
                  sessRole = Some (case role u of None \<Rightarrow> ''user'' | Some r \<Rightarrow> if r = [] then ''user'' else r)\<rparr>
                 secret,
      httpOnly = True, secure = (NODE_ENV env = Some ''production''), sameSite = ''lax'',
      cpath = ''/'', maxAge = Some 604800, expires = None\<rparr>"
  by (simp add: auth_cookie_def generateJWT_def production_def or_null_def or_default_def
      falsy_def split: option.split)

lemma user_json_explicit:
  "user_json u =
     JObj [(''email'', JStr (email u)), (''id'', JStr (oid u)),
           (''name'', (case name u of None \<Rightarrow> JNull | Some n \<Rightarrow> if n = [] then JNull else JStr n)),
           (''role'', JStr (case role u of None \<Rightarrow> ''user'' | Some r \<Rightarrow> if r = [] then ''user'' else r)),
           (''emailVerified'', JBool (emailVerified u))]"
  by (simp add: user_json_def json_of_def or_null_def or_default_def falsy_def
      split: option.split)

lemma otp_flow_already_verified:
  assumes "emailVerified u"
  shows "otp_flow env db secret e ''signup'' u submitted =
           \<lparr>resp = \<lparr>status = 200,
                    body = JObj [(''user'', user_json u), (''status'', JStr ''already_verified'')],
                    token_cookie = Some (auth_cookie env (generateJWT env secret u))\<rparr>,
            users = db, sent = [], waited = 0\<rparr>"
  using assms
  by (simp add: otp_flow_def unchanged_def setAuthCookie_def NextResponse_json_def)

lemma otp_flow_signup_ok:
  assumes "u \<in> set db" and "distinct (map oid db)"
    and "\<not> emailVerified u" and "\<not> otp_rejected u submitted (clock env 0)"
  shows "otp_flow env db secret e ''signup'' u submitted =
           \<lparr>resp = \<lparr>status = 200,
                    body = JObj [(''user'', user_json (set_verified (clock env 1) (clock env 2) u))],
                    token_cookie = Some (auth_cookie env
                      (generateJWT env secret (set_verified (clock env 1) (clock env 2) u)))\<rparr>,
            users = map (\<lambda>v. if v = u then set_verified (clock env 1) (clock env 2) u else v) db,
            sent = deliver env (VerificationSuccessEmail e (or_default (name u) ''User'')),
            waited = 0\<rparr>"
proof -
  have "findOne (by_id (oid u)) (updateOne (by_id (oid u)) (set_verified (clock env 1) (clock env 2)) db)
        = Some (set_verified (clock env 1) (clock env 2) u)"
    using assms(1,2) by (rule findOne_by_id_after_update) (simp add: set_verified_def)
  moreover have "updateOne (by_id (oid u)) (set_verified (clock env 1) (clock env 2)) db
        = map (\<lambda>v. if v = u then set_verified (clock env 1) (clock env 2) u else v) db"
    using assms(1,2) by (simp add: updateOne_distinct replace_found)
  ultimately show ?thesis
    using assms(3,4)
    by (simp add: otp_flow_def Let_def setAuthCookie_def NextResponse_json_def)
qed

lemma password_flow_ok:
  assumes "u \<in> set db" and "distinct (map oid db)" and "\<not> same_password env u newPassword"
  shows "password_flow env db secret e u newPassword =
           \<lparr>resp = \<lparr>status = 200,
                    body = JObj [(''user'', user_json
                             (set_password (bcrypt_hash env newPassword) (clock env 0) (clock env 1) u))],
                    token_cookie = Some (auth_cookie env (generateJWT env secret
                             (set_password (bcrypt_hash env newPassword) (clock env 0) (clock env 1) u)))\<rparr>,
            users = map (\<lambda>v. if v = u
                               then set_password (bcrypt_hash env newPassword) (clock env 0) (clock env 1) u
                               else v) db,
            sent = reset_mails env e u,
            waited = 0\<rparr>"
proof -
  let ?f = "set_password (bcrypt_hash env newPassword) (clock env 0) (clock env 1)"
  have "findOne (by_id (oid u)) (updateOne (by_id (oid u)) ?f db) = Some (?f u)"
    using assms(1,2) by (rule findOne_by_id_after_update) (simp add: set_password_def)
  moreover have "updateOne (by_id (oid u)) ?f db = map (\<lambda>v. if v = u then ?f u else v) db"
    using assms(1,2) by (simp add: updateOne_distinct replace_found)
  ultimately show ?thesis
    using assms(3)
    by (simp add: password_flow_def Let_def setAuthCookie_def NextResponse_json_def)
qed

lemma password_flow_same:
  assumes "same_password env u newPassword"
  shows "password_flow env db secret e u newPassword =
           \<lparr>resp = \<lparr>status = 400,
                    body = JObj [(''error'', JStr ''New password cannot be the same as the old password.'')],
                    token_cookie = None\<rparr>,
            users = db, sent = [], waited = 0\<rparr>"
  using assms
  by (simp add: password_flow_def unchanged_def error_response_def NextResponse_json_def)

section \<open>Claims about the verification route\<close>


text \<open>The guard and the repeated call, in terms of the helpers of the route.\<close>

lemma guard_outcome:
  assumes "JWT_SECRET env = Some secret" "secret \<noteq> []"
    and "decodeURIComponent env rawEmail = Some decoded"
    and "findOne_email env (toLowerCase env decoded) db = Some (Some u)"
    and "otpVerificationSchema b = Some submitted"
  shows "(emailVerified u \<longrightarrow>
            verification_POST env db rawEmail ''signup'' (Some b) =
              \<lparr>resp = \<lparr>status = 200,
                       body = JObj [(''user'', user_json u), (''status'', JStr ''already_verified'')],
                       token_cookie = Some (auth_cookie env (generateJWT env secret u))\<rparr>,
               users = db, sent = [], waited = 0\<rparr>)
       \<and> (\<not> emailVerified u \<and> otp u = Some submitted \<and> otpExpiry u = Some expiry \<and>
          clock env 0 \<le> expiry \<and> distinct (map oid db) \<longrightarrow>
            (let first = verification_POST env db rawEmail ''signup'' (Some b);
                 verified = u\<lparr>emailVerified := True, otp := None, otpExpiry := None,
                              lastLogin := Some (clock env 1), updatedAt := Some (clock env 2)\<rparr>;
                 again = verification_POST (env\<lparr>clock := later\<rparr>) (users first) rawEmail
                           ''signup'' (Some b)
             in status (resp first) = 200
              \<and> again =
                  \<lparr>resp = \<lparr>status = 200,
                           body = JObj [(''user'', user_json verified),
                                        (''status'', JStr ''already_verified'')],
                           token_cookie = Some (auth_cookie env (generateJWT env secret verified))\<rparr>,
                   users = users first, sent = [], waited = 0\<rparr>))"
proof (intro conjI impI)
  assume "emailVerified u"
  then show "verification_POST env db rawEmail ''signup'' (Some b) =
              \<lparr>resp = \<lparr>status = 200,
                       body = JObj [(''user'', user_json u), (''status'', JStr ''already_verified'')],
                       token_cookie = Some (auth_cookie env (generateJWT env secret u))\<rparr>,
               users = db, sent = [], waited = 0\<rparr>"
    unfolding verification_POST_otp [OF assms(1-5)] by (rule otp_flow_already_verified)
next
  assume h: "\<not> emailVerified u \<and> otp u = Some submitted \<and> otpExpiry u = Some expiry \<and>
          clock env 0 \<le> expiry \<and> distinct (map oid db)"
  let ?f = "set_verified (clock env 1) (clock env 2)"
  let ?env = "env\<lparr>clock := later\<rparr>"
  have len: "length submitted = 6" using assms(5) by (rule otp_length)
  have ok: "\<not> otp_rejected u submitted (clock env 0)"
    using h by (simp add: otp_rejected_iff [OF len])
  have mem: "u \<in> set db" using assms(4) by (rule findOne_email_in_set)
  have dist: "distinct (map oid db)" and unv: "\<not> emailVerified u" using h by simp_all
  have upd: "updateOne (by_id (oid u)) ?f db = map (\<lambda>v. if v = u then ?f u else v) db"
    using mem dist by (simp add: updateOne_distinct replace_found)
  have first: "verification_POST env db rawEmail ''signup'' (Some b) =
           \<lparr>resp = \<lparr>status = 200,
                    body = JObj [(''user'', user_json (?f u))],
                    token_cookie = Some (auth_cookie env (generateJWT env secret (?f u)))\<rparr>,
            users = updateOne (by_id (oid u)) ?f db,
            sent = deliver env (VerificationSuccessEmail (toLowerCase env decoded)
                                  (or_default (name u) ''User'')),
            waited = 0\<rparr>"
    unfolding verification_POST_otp [OF assms(1-5)] otp_flow_signup_ok [OF mem dist unv ok] upd ..
  have found': "findOne_email ?env (toLowerCase ?env decoded) (updateOne (by_id (oid u)) ?f db)
                = Some (Some (?f u))"
    using findOne_email_after_update [OF assms(4) dist, of ?f ?env]
    by (simp add: set_verified_def)
  have again: "verification_POST ?env (updateOne (by_id (oid u)) ?f db) rawEmail ''signup'' (Some b)
               = otp_flow ?env (updateOne (by_id (oid u)) ?f db) secret (toLowerCase ?env decoded)
                   ''signup'' (?f u) submitted"
    by (rule verification_POST_otp) (use assms found' in simp_all)
  have ver: "emailVerified (?f u)" by (simp add: set_verified_def)
  note again' = again [unfolded otp_flow_already_verified [OF ver]]
  show "let first = verification_POST env db rawEmail ''signup'' (Some b);
                 verified = u\<lparr>emailVerified := True, otp := None, otpExpiry := None,
                              lastLogin := Some (clock env 1), updatedAt := Some (clock env 2)\<rparr>;
                 again = verification_POST (env\<lparr>clock := later\<rparr>) (users first) rawEmail
                           ''signup'' (Some b)
             in status (resp first) = 200
              \<and> again =
                  \<lparr>resp = \<lparr>status = 200,
                           body = JObj [(''user'', user_json verified),
                                        (''status'', JStr ''already_verified'')],
                           token_cookie = Some (auth_cookie env (generateJWT env secret verified))\<rparr>,
                   users = users first, sent = [], waited = 0\<rparr>"
    unfolding Let_def first
    using again' by (simp add: set_verified_fun)
qed


text \<open>
  Claim C2. For an account with \<open>emailVerified = true\<close>, a verify request with purpose
  signup and any well-formed OTP answers 200 with the profile of the account and the
  mark \<open>already_verified\<close>, sets the session cookie (the token signed for that
  account, HTTP-only, same-site lax, for the whole origin, for seven days) and leaves
  the collection as it was (first conjunct). In particular (second conjunct), when a
  first call with the correct, unexpired OTP has verified an unverified account, the
  same call repeated on the resulting collection, at any later time, succeeds through
  this guard with the same response and changes nothing more.
\<close>

theorem verify_signup_already_verified:
  assumes "JWT_SECRET env = Some secret" "secret \<noteq> []"
    and "decodeURIComponent env rawEmail = Some decoded"
    and "findOne_email env (toLowerCase env decoded) db = Some (Some u)"
    and "otpVerificationSchema b = Some submitted"
  shows "let session_cookie =
               \<lparr>cvalue = jwt_sign env
                           \<lparr>userId = oid u, sessEmail = email u,
                            sessName = (case name u of None \<Rightarrow> None | Some n \<Rightarrow> if n = [] then None else Some n),
                            sessRole = Some (case role u of None \<Rightarrow> ''user'' | Some r \<Rightarrow> if r = [] then ''user'' else r)\<rparr>
                           secret,
                httpOnly = True, secure = (NODE_ENV env = Some ''production''), sameSite = ''lax'',
                cpath = ''/'', maxAge = Some 604800, expires = None\<rparr>;
             already =
               \<lparr>status = 200,
                body = JObj [(''user'', JObj [(''email'', JStr (email u)), (''id'', JStr (oid u)),
                             (''name'', (case name u of None \<Rightarrow> JNull | Some n \<Rightarrow> if n = [] then JNull else JStr n)),
                             (''role'', JStr (case role u of None \<Rightarrow> ''user'' | Some r \<Rightarrow> if r = [] then ''user'' else r)),
                             (''emailVerified'', JBool True)]),
                             (''status'', JStr ''already_verified'')],
                token_cookie = Some session_cookie\<rparr>
         in (emailVerified u \<longrightarrow>
               verification_POST env db rawEmail ''signup'' (Some b) =
                 \<lparr>resp = already, users = db, sent = [], waited = 0\<rparr>)
          \<and> (\<not> emailVerified u \<and> otp u = Some submitted \<and> otpExpiry u = Some expiry \<and>
             clock env 0 \<le> expiry \<and> distinct (map oid db) \<longrightarrow>
               (let first = verification_POST env db rawEmail ''signup'' (Some b);
                    again = verification_POST (env\<lparr>clock := later\<rparr>) (users first) rawEmail
                              ''signup'' (Some b)
                in status (resp first) = 200
                 \<and> again = \<lparr>resp = already, users = users first, sent = [], waited = 0\<rparr>))"
proof -
  note folded = guard_outcome [OF assms, where expiry = expiry and later = later]
  show ?thesis
    using folded
    by (simp add: Let_def session_cookie_explicit user_json_explicit)
qed

theorem verify_signup_already_verified_witness:
  "verification_POST env0 sample_db ''bob@b.com'' ''signup'' (Some (otp_body ''000000'')) =
     \<lparr>resp = \<lparr>status = 200,
              body = JObj [(''user'', JObj [(''email'', JStr ''bob@b.com''), (''id'', JStr ''65b2''),
                                           (''name'', JStr ''Bob''), (''role'', JStr ''admin''),
                                           (''emailVerified'', JBool True)]),
                           (''status'', JStr ''already_verified'')],
              token_cookie = Some \<lparr>cvalue = ''jwt:65b2'', httpOnly = True, secure = True,
                                   sameSite = ''lax'', cpath = ''/'', maxAge = Some 604800,
                                   expires = None\<rparr>\<rparr>,
      users = sample_db, sent = [], waited = 0\<rparr>
   \<and> status (resp (verification_POST env0 sample_db ''a@b.com'' ''signup''
                     (Some (otp_body ''123456'')))) = 200
   \<and> verification_POST (env0\<lparr>clock := \<lambda>k. 999999\<rparr>)
        (users (verification_POST env0 sample_db ''a@b.com'' ''signup''
                  (Some (otp_body ''123456''))))
        ''a@b.com'' ''signup'' (Some (otp_body ''123456'')) =
     \<lparr>resp = \<lparr>status = 200,
              body = JObj [(''user'', JObj [(''email'', JStr ''a@b.com''), (''id'', JStr ''65a1''),
                                           (''name'', JStr ''Alice''), (''role'', JStr ''user''),
                                           (''emailVerified'', JBool True)]),
                           (''status'', JStr ''already_verified'')],
              token_cookie = Some \<lparr>cvalue = ''jwt:65a1'', httpOnly = True, secure = True,
                                   sameSite = ''lax'', cpath = ''/'', maxAge = Some 604800,
                                   expires = None\<rparr>\<rparr>,
      users = users (verification_POST env0 sample_db ''a@b.com'' ''signup''
                       (Some (otp_body ''123456''))),
      sent = [], waited = 0\<rparr>"
proof -
  have s: "''s3cret'' \<noteq> []" by simp
  have pb: "otpVerificationSchema (otp_body ''000000'') = Some ''000000''"
    by (simp add: otp_body_parses)
  have pa: "otpVerificationSchema (otp_body ''123456'') = Some ''123456''"
    by (simp add: otp_body_parses)
  have fb: "findOne_email env0 (toLowerCase env0 ''bob@b.com'') sample_db = Some (Some bob)"
    by (simp add: env0_lower sample_find_bob)
  have fa: "findOne_email env0 (toLowerCase env0 ''a@b.com'') sample_db = Some (Some alice)"
    by (simp add: env0_lower sample_find_alice)
  have vb: "emailVerified bob" by (simp add: bob_def)
  have ha: "\<not> emailVerified alice \<and> otp alice = Some ''123456'' \<and> otpExpiry alice = Some 1000 \<and>
            clock env0 0 \<le> 1000 \<and> distinct (map oid sample_db)"
    by (simp add: alice_def env0_def sample_distinct)
  have e: "\<And>p. jwt_sign env0 p ''s3cret'' = ''jwt:'' @ userId p"
    "NODE_ENV env0 = Some ''production''"
    by (simp_all add: env0_def)
  have fields:
    "oid bob = ''65b2''" "email bob = ''bob@b.com''" "name bob = Some ''Bob''"
    "role bob = Some ''admin''"
    "oid alice = ''65a1''" "email alice = ''a@b.com''" "name alice = Some ''Alice''"
    "role alice = None"
    by (simp_all add: alice_def bob_def)
  note b1 = verify_signup_already_verified [OF env0_secret s env0_decode fb pb,
              unfolded Let_def, THEN conjunct1, rule_format, OF vb]
  note a1 = verify_signup_already_verified [OF env0_secret s env0_decode fa pa,
              where expiry = 1000 and later = "\<lambda>k. 999999",
              unfolded Let_def, THEN conjunct2, rule_format, OF ha]
  show ?thesis
    using b1 a1 by (simp add: e fields)
qed

text \<open>
  Claim C5. When the already-verified signup guard does not apply, a verify request
  with a well-formed OTP fails with status 400 and the error \<open>Invalid or expired OTP.\<close>
  exactly when the stored \<open>otp\<close> is missing, the stored \<open>otpExpiry\<close> is missing, the
  submitted code differs from the stored one, or \<open>otpExpiry\<close> is strictly earlier than
  the clock reading (an expiry equal to the reading is still valid). On that failure
  the collection is unchanged and no cookie is set.
\<close>

theorem verify_invalid_or_expired_iff:
  assumes "JWT_SECRET env = Some secret" "secret \<noteq> []"
    and "decodeURIComponent env rawEmail = Some decoded"
    and "findOne_email env (toLowerCase env decoded) db = Some (Some u)"
    and "otpVerificationSchema b = Some submitted"
    and "\<not> (type = ''signup'' \<and> emailVerified u)"
  shows "let out = verification_POST env db rawEmail type (Some b);
             failed = (status (resp out) = 400 \<and>
                       body (resp out) = JObj [(''error'', JStr ''Invalid or expired OTP.'')])
         in (failed \<longleftrightarrow>
               (otp u = None \<or> otpExpiry u = None \<or> otp u \<noteq> Some submitted \<or>
                (case otpExpiry u of None \<Rightarrow> False | Some e \<Rightarrow> e < clock env 0)))
          \<and> (failed \<longrightarrow> users out = db \<and> token_cookie (resp out) = None)"
proof -
  have len: "length submitted = 6" using assms(5) by (rule otp_length)
  have guard: "(type = ''signup'' \<and> emailVerified u) = False" using assms(6) by simp
  show ?thesis
  proof (cases "otp_rejected u submitted (clock env 0)")
    case True
    moreover from True have "otp u = None \<or> otpExpiry u = None \<or> otp u \<noteq> Some submitted \<or>
                (case otpExpiry u of None \<Rightarrow> False | Some e \<Rightarrow> e < clock env 0)"
      by (simp add: otp_rejected_iff [OF len])
    ultimately show ?thesis
      unfolding Let_def verification_POST_otp [OF assms(1-5)]
      by (simp add: otp_flow_def guard unchanged_def error_response_def NextResponse_json_def)
  next
    case False
    moreover from False have "\<not> (otp u = None \<or> otpExpiry u = None \<or> otp u \<noteq> Some submitted \<or>
                (case otpExpiry u of None \<Rightarrow> False | Some e \<Rightarrow> e < clock env 0))"
      by (simp add: otp_rejected_iff [OF len])
    ultimately show ?thesis
      unfolding Let_def verification_POST_otp [OF assms(1-5)]
      by (simp add: otp_flow_def guard unchanged_def error_response_def message_response_def
          NextResponse_json_def setAuthCookie_def Let_def split: option.splits)
  qed
qed

theorem verify_invalid_or_expired_iff_witness:
  "status (resp (verification_POST env0 sample_db ''a@b.com'' ''password-reset''
                   (Some (otp_body ''000000'')))) = 400
   \<and> body (resp (verification_POST env0 sample_db ''a@b.com'' ''password-reset''
                   (Some (otp_body ''000000''))))
     = JObj [(''error'', JStr ''Invalid or expired OTP.'')]
   \<and> users (verification_POST env0 sample_db ''a@b.com'' ''password-reset''
                   (Some (otp_body ''000000''))) = sample_db
   \<and> token_cookie (resp (verification_POST env0 sample_db ''a@b.com'' ''password-reset''
                   (Some (otp_body ''000000'')))) = None
   \<and> otpExpiry alice = Some (clock env0 0)
   \<and> \<not> (status (resp (verification_POST env0 sample_db ''a@b.com'' ''password-reset''
                   (Some (otp_body ''123456'')))) = 400
        \<and> body (resp (verification_POST env0 sample_db ''a@b.com'' ''password-reset''
                   (Some (otp_body ''123456''))))
          = JObj [(''error'', JStr ''Invalid or expired OTP.'')])"
proof -
  have s: "''s3cret'' \<noteq> []" by simp
  have p0: "otpVerificationSchema (otp_body ''000000'') = Some ''000000''"
    by (simp add: otp_body_parses)
  have p1: "otpVerificationSchema (otp_body ''123456'') = Some ''123456''"
    by (simp add: otp_body_parses)
  have fa: "findOne_email env0 (toLowerCase env0 ''a@b.com'') sample_db = Some (Some alice)"
    by (simp add: env0_lower sample_find_alice)
  have g: "\<not> (''password-reset'' = ''signup'' \<and> emailVerified alice)" by simp
  have oa: "otp alice = Some ''123456''" "otpExpiry alice = Some 1000" "clock env0 0 = 1000"
    by (simp_all add: alice_def env0_def)
  note wrong = verify_invalid_or_expired_iff [OF env0_secret s env0_decode fa p0 g]
  note right = verify_invalid_or_expired_iff [OF env0_secret s env0_decode fa p1 g]
  show ?thesis
    using wrong right by (simp add: Let_def oa)
qed


text \<open>A successful signup verification, in terms of the helpers of the route.\<close>

lemma signup_outcome:
  assumes "JWT_SECRET env = Some secret" "secret \<noteq> []"
    and "decodeURIComponent env rawEmail = Some decoded"
    and "findOne_email env (toLowerCase env decoded) db = Some (Some u)"
    and "otpVerificationSchema b = Some submitted"
    and "\<not> emailVerified u"
    and "otp u = Some submitted" and "otpExpiry u = Some expiry" and "clock env 0 \<le> expiry"
    and "distinct (map oid db)"
  shows "let verified = u\<lparr>emailVerified := True, otp := None, otpExpiry := None,
                          lastLogin := Some (clock env 1), updatedAt := Some (clock env 2)\<rparr>;
             out = verification_POST env db rawEmail ''signup'' (Some b)
         in users out = updateOne (by_id (oid u))
                          (\<lambda>v. v\<lparr>emailVerified := True, otp := None, otpExpiry := None,
                                 lastLogin := Some (clock env 1), updatedAt := Some (clock env 2)\<rparr>) db
          \<and> users out = map (\<lambda>v. if v = u then verified else v) db
          \<and> status (resp out) = 200
          \<and> body (resp out) = JObj [(''user'', user_json verified)]
          \<and> token_cookie (resp out) = Some (auth_cookie env (generateJWT env secret verified))"
proof -
  have len: "length submitted = 6" using assms(5) by (rule otp_length)
  have ok: "\<not> otp_rejected u submitted (clock env 0)"
    using assms(7-9) by (simp add: otp_rejected_iff [OF len])
  have mem: "u \<in> set db" using assms(4) by (rule findOne_email_in_set)
  have upd: "updateOne (by_id (oid u)) (set_verified (clock env 1) (clock env 2)) db
        = map (\<lambda>v. if v = u then set_verified (clock env 1) (clock env 2) u else v) db"
    using mem assms(10) by (simp add: updateOne_distinct replace_found)
  show ?thesis
    unfolding Let_def verification_POST_otp [OF assms(1-5)]
      otp_flow_signup_ok [OF mem assms(10) assms(6) ok]
    using upd by (simp add: set_verified_fun)
qed


text \<open>
  Claim C6. For an unverified account with a matching, unexpired OTP, a verify request
  with purpose signup makes one \<open>updateOne\<close> whose \<open>$set\<close> clears \<open>otp\<close> and \<open>otpExpiry\<close>,
  sets \<open>emailVerified\<close> and writes \<open>lastLogin\<close> and \<open>updatedAt\<close>; in a collection
  with unique ids that replaces the account's document and no other. The response
  has status 200, carries the profile of the now verified account, and sets the
  session cookie: the token signed for that account, HTTP-only, same-site lax, for
  the whole origin, for seven days.
\<close>

theorem verify_signup_success:
  assumes "JWT_SECRET env = Some secret" "secret \<noteq> []"
    and "decodeURIComponent env rawEmail = Some decoded"
    and "findOne_email env (toLowerCase env decoded) db = Some (Some u)"
    and "otpVerificationSchema b = Some submitted"
    and "\<not> emailVerified u"
    and "otp u = Some submitted" and "otpExpiry u = Some expiry" and "clock env 0 \<le> expiry"
    and "distinct (map oid db)"
  shows "let verified = u\<lparr>emailVerified := True, otp := None, otpExpiry := None,
                          lastLogin := Some (clock env 1), updatedAt := Some (clock env 2)\<rparr>;
             out = verification_POST env db rawEmail ''signup'' (Some b)
         in users out = updateOne (by_id (oid u))
                          (\<lambda>v. v\<lparr>emailVerified := True, otp := None, otpExpiry := None,
                                 lastLogin := Some (clock env 1), updatedAt := Some (clock env 2)\<rparr>) db
          \<and> users out = map (\<lambda>v. if v = u then verified else v) db
          \<and> status (resp out) = 200
          \<and> body (resp out) =
              JObj [(''user'', JObj [(''email'', JStr (email u)), (''id'', JStr (oid u)),
                            (''name'', (case name u of None \<Rightarrow> JNull | Some n \<Rightarrow> if n = [] then JNull else JStr n)),
                            (''role'', JStr (case role u of None \<Rightarrow> ''user'' | Some r \<Rightarrow> if r = [] then ''user'' else r)),
                            (''emailVerified'', JBool True)])]
          \<and> token_cookie (resp out) = Some
               \<lparr>cvalue = jwt_sign env
                           \<lparr>userId = oid u, sessEmail = email u,
                            sessName = (case name u of None \<Rightarrow> None | Some n \<Rightarrow> if n = [] then None else Some n),
                            sessRole = Some (case role u of None \<Rightarrow> ''user'' | Some r \<Rightarrow> if r = [] then ''user'' else r)\<rparr>
                           secret,
                httpOnly = True, secure = (NODE_ENV env = Some ''production''), sameSite = ''lax'',
                cpath = ''/'', maxAge = Some 604800, expires = None\<rparr>"
proof -
  note folded = signup_outcome [OF assms, unfolded Let_def]
  show ?thesis
    unfolding Let_def
    using folded
    by (auto simp: session_cookie_explicit user_json_explicit)
qed

theorem verify_signup_success_witness:
  "users (verification_POST env0 sample_db ''a@b.com'' ''signup'' (Some (otp_body ''123456'')))
     = [alice\<lparr>emailVerified := True, otp := None, otpExpiry := None,
              lastLogin := Some 1001, updatedAt := Some 1002\<rparr>, bob, carol]
   \<and> resp (verification_POST env0 sample_db ''a@b.com'' ''signup'' (Some (otp_body ''123456'')))
     = \<lparr>status = 200,
        body = JObj [(''user'', JObj [(''email'', JStr ''a@b.com''), (''id'', JStr ''65a1''),
                                     (''name'', JStr ''Alice''), (''role'', JStr ''user''),
                                     (''emailVerified'', JBool True)])],
        token_cookie = Some \<lparr>cvalue = ''jwt:65a1'', httpOnly = True, secure = True,
                             sameSite = ''lax'', cpath = ''/'', maxAge = Some 604800,
                             expires = None\<rparr>\<rparr>"
proof -
  have s: "''s3cret'' \<noteq> []" by simp
  have p1: "otpVerificationSchema (otp_body ''123456'') = Some ''123456''"
    by (simp add: otp_body_parses)
  have fa: "findOne_email env0 (toLowerCase env0 ''a@b.com'') sample_db = Some (Some alice)"
    by (simp add: env0_lower sample_find_alice)
  have h: "\<not> emailVerified alice" "otp alice = Some ''123456''" "otpExpiry alice = Some 1000"
    "clock env0 0 \<le> 1000"
    by (simp_all add: alice_def env0_def)
  have e: "\<And>p. jwt_sign env0 p ''s3cret'' = ''jwt:'' @ userId p"
    "NODE_ENV env0 = Some ''production''"
    "clock env0 (Suc 0) = 1001" "clock env0 2 = 1002"
    by (simp_all add: env0_def)
  have fields:
    "oid alice = ''65a1''" "email alice = ''a@b.com''" "name alice = Some ''Alice''"
    "role alice = None"
    by (simp_all add: alice_def)
  have others: "bob \<noteq> alice" "carol \<noteq> alice" by (simp_all add: alice_def bob_def carol_def)
  note inst = verify_signup_success [OF env0_secret s env0_decode fa p1 h sample_distinct]
  show ?thesis
    using inst [unfolded Let_def, THEN conjunct2] others
    by (simp add: e fields sample_db_def response.equality)
qed

text \<open>
  Claim C8. For an account with a matching, unexpired OTP, a verify request with
  purpose password-reset answers 200 with \<open>OTP verified. Proceed to set new password.\<close>,
  sets no cookie, sends nothing and leaves every document of the collection as it
  was: \<open>otp\<close> and \<open>otpExpiry\<close> are retained.
\<close>

theorem verify_password_reset_retains_challenge:
  assumes "JWT_SECRET env = Some secret" "secret \<noteq> []"
    and "decodeURIComponent env rawEmail = Some decoded"
    and "findOne_email env (toLowerCase env decoded) db = Some (Some u)"
    and "otpVerificationSchema b = Some submitted"
    and "otp u = Some submitted" and "otpExpiry u = Some expiry" and "clock env 0 \<le> expiry"
  shows "verification_POST env db rawEmail ''password-reset'' (Some b) =
           \<lparr>resp = \<lparr>status = 200,
                    body = JObj [(''message'', JStr ''OTP verified. Proceed to set new password.'')],
                    token_cookie = None\<rparr>,
            users = db, sent = [], waited = 0\<rparr>"
proof -
  have len: "length submitted = 6" using assms(5) by (rule otp_length)
  have "\<not> otp_rejected u submitted (clock env 0)"
    using assms(6-8) by (simp add: otp_rejected_iff [OF len])
  then show ?thesis
    by (simp add: verification_POST_otp [OF assms(1-5)] otp_flow_def unchanged_def
        message_response_def NextResponse_json_def)
qed

theorem verify_password_reset_retains_challenge_witness:
  "verification_POST env0 sample_db ''a@b.com'' ''password-reset'' (Some (otp_body ''123456'')) =
     \<lparr>resp = \<lparr>status = 200,
              body = JObj [(''message'', JStr ''OTP verified. Proceed to set new password.'')],
              token_cookie = None\<rparr>,
      users = sample_db, sent = [], waited = 0\<rparr>"
proof -
  have s: "''s3cret'' \<noteq> []" by simp
  have p1: "otpVerificationSchema (otp_body ''123456'') = Some ''123456''"
    by (simp add: otp_body_parses)
  have fa: "findOne_email env0 (toLowerCase env0 ''a@b.com'') sample_db = Some (Some alice)"
    by (simp add: env0_lower sample_find_alice)
  have h: "otp alice = Some ''123456''" "otpExpiry alice = Some 1000" "clock env0 0 \<le> 1000"
    by (simp_all add: alice_def env0_def)
  show ?thesis
    by (rule verify_password_reset_retains_challenge [OF env0_secret s env0_decode fa p1 h])
qed



text \<open>The password branch, in terms of the helpers of the route.\<close>

lemma reset_outcome:
  assumes "JWT_SECRET env = Some secret" "secret \<noteq> []"
    and "decodeURIComponent env rawEmail = Some decoded"
    and "findOne_email env (toLowerCase env decoded) db = Some (Some u)"
    and "otpVerificationSchema b = None"
    and "passwordResetBodySchema b = Some newPassword"
    and "distinct (map oid db)"
  shows "let out = verification_POST env db rawEmail type (Some b);
             changed = u\<lparr>password := Some (bcrypt_hash env newPassword),
                         otp := None, otpExpiry := None, emailVerified := True,
                         lastLogin := Some (clock env 0), updatedAt := Some (clock env 1)\<rparr>
         in if same_password env u newPassword
            then status (resp out) = 400
               \<and> body (resp out) =
                   JObj [(''error'', JStr ''New password cannot be the same as the old password.'')]
               \<and> token_cookie (resp out) = None
               \<and> users out = db
            else status (resp out) = 200
               \<and> body (resp out) = JObj [(''user'', user_json changed)]
               \<and> token_cookie (resp out) = Some (auth_cookie env (generateJWT env secret changed))
               \<and> users out = map (\<lambda>v. if v = u then changed else v) db"
proof -
  have mem: "u \<in> set db" using assms(4) by (rule findOne_email_in_set)
  show ?thesis
  proof (cases "same_password env u newPassword")
    case True
    then show ?thesis
      unfolding Let_def verification_POST_password [OF assms(1-6)]
      by (simp add: password_flow_same)
  next
    case False
    then show ?thesis
      unfolding Let_def verification_POST_password [OF assms(1-6)]
        password_flow_ok [OF mem assms(7) False]
      by (simp add: set_password_fun)
  qed
qed


text \<open>
  Claim C7. A password-reset completion request (a body that carries a valid new
  password and no valid OTP) for an account whose stored credential compares equal to
  the new password fails with status 400 and the error
  \<open>New password cannot be the same as the old password.\<close>, and the collection is
  unchanged. For a new password that does not compare equal it succeeds: the account's
  document gets the new hash, \<open>otp\<close> and \<open>otpExpiry\<close> are cleared, \<open>emailVerified\<close> is
  set, \<open>lastLogin\<close> and \<open>updatedAt\<close> are written, no other document changes, and the
  response has status 200, carries the profile of the account and sets the session
  cookie: the token signed for that account, HTTP-only, same-site lax, for the whole
  origin, for seven days.
\<close>

theorem reset_password_same_or_changed:
  assumes "JWT_SECRET env = Some secret" "secret \<noteq> []"
    and "decodeURIComponent env rawEmail = Some decoded"
    and "findOne_email env (toLowerCase env decoded) db = Some (Some u)"
    and "otpVerificationSchema b = None"
    and "passwordResetBodySchema b = Some newPassword"
    and "distinct (map oid db)"
  shows "let out = verification_POST env db rawEmail type (Some b);
             changed = u\<lparr>password := Some (bcrypt_hash env newPassword),
                         otp := None, otpExpiry := None, emailVerified := True,
                         lastLogin := Some (clock env 0), updatedAt := Some (clock env 1)\<rparr>
         in if same_password env u newPassword
            then status (resp out) = 400
               \<and> body (resp out) =
                   JObj [(''error'', JStr ''New password cannot be the same as the old password.'')]
               \<and> token_cookie (resp out) = None
               \<and> users out = db
            else status (resp out) = 200
               \<and> body (resp out) =
                   JObj [(''user'', JObj [(''email'', JStr (email u)), (''id'', JStr (oid u)),
                                 (''name'', (case name u of None \<Rightarrow> JNull | Some n \<Rightarrow> if n = [] then JNull else JStr n)),
                                 (''role'', JStr (case role u of None \<Rightarrow> ''user'' | Some r \<Rightarrow> if r = [] then ''user'' else r)),
                                 (''emailVerified'', JBool True)])]
               \<and> token_cookie (resp out) = Some
                    \<lparr>cvalue = jwt_sign env
                                \<lparr>userId = oid u, sessEmail = email u,
                                 sessName = (case name u of None \<Rightarrow> None | Some n \<Rightarrow> if n = [] then None else Some n),
                                 sessRole = Some (case role u of None \<Rightarrow> ''user'' | Some r \<Rightarrow> if r = [] then ''user'' else r)\<rparr>
                                secret,
                     httpOnly = True, secure = (NODE_ENV env = Some ''production''), sameSite = ''lax'',
                     cpath = ''/'', maxAge = Some 604800, expires = None\<rparr>
               \<and> users out = map (\<lambda>v. if v = u then changed else v) db"
proof -
  note folded = reset_outcome [OF assms, where type = type]
  show ?thesis
    using folded
    by (simp add: Let_def session_cookie_explicit user_json_explicit)
qed

theorem reset_password_same_or_changed_witness:
  "status (resp (verification_POST env0 sample_db ''a@b.com'' ''password-reset''
                   (Some (password_body ''secret1'')))) = 400
   \<and> users (verification_POST env0 sample_db ''a@b.com'' ''password-reset''
                   (Some (password_body ''secret1''))) = sample_db
   \<and> token_cookie (resp (verification_POST env0 sample_db ''a@b.com'' ''password-reset''
                   (Some (password_body ''secret1'')))) = None
   \<and> users (verification_POST env0 sample_db ''a@b.com'' ''password-reset''
                   (Some (password_body ''secret2'')))
     = [alice\<lparr>password := Some ''bcrypt:secret2'', otp := None, otpExpiry := None,
              emailVerified := True, lastLogin := Some 1000, updatedAt := Some 1001\<rparr>,
        bob, carol]
   \<and> resp (verification_POST env0 sample_db ''a@b.com'' ''password-reset''
                   (Some (password_body ''secret2'')))
     = \<lparr>status = 200,
        body = JObj [(''user'', JObj [(''email'', JStr ''a@b.com''), (''id'', JStr ''65a1''),
                                     (''name'', JStr ''Alice''), (''role'', JStr ''user''),
                                     (''emailVerified'', JBool True)])],
        token_cookie = Some \<lparr>cvalue = ''jwt:65a1'', httpOnly = True, secure = True,
                             sameSite = ''lax'', cpath = ''/'', maxAge = Some 604800,
                             expires = None\<rparr>\<rparr>"
proof -
  have s: "''s3cret'' \<noteq> []" by simp
  have fa: "findOne_email env0 (toLowerCase env0 ''a@b.com'') sample_db = Some (Some alice)"
    by (simp add: env0_lower sample_find_alice)
  have p1: "passwordResetBodySchema (password_body ''secret1'') = Some ''secret1''"
    and p2: "passwordResetBodySchema (password_body ''secret2'') = Some ''secret2''"
    by (simp_all add: password_body_parses)
  have same: "same_password env0 alice ''secret1''" "\<not> same_password env0 alice ''secret2''"
    by (simp_all add: same_password_def env0_def alice_def)
  have e: "\<And>p. jwt_sign env0 p ''s3cret'' = ''jwt:'' @ userId p"
    "NODE_ENV env0 = Some ''production''"
    "clock env0 0 = 1000" "clock env0 (Suc 0) = 1001"
    "bcrypt_hash env0 ''secret2'' = ''bcrypt:secret2''"
    by (simp_all add: env0_def)
  have fields:
    "oid alice = ''65a1''" "email alice = ''a@b.com''" "name alice = Some ''Alice''"
    "role alice = None"
    by (simp_all add: alice_def)
  have others: "bob \<noteq> alice" "carol \<noteq> alice" by (simp_all add: alice_def bob_def carol_def)
  note refused = reset_password_same_or_changed
    [OF env0_secret s env0_decode fa password_body_no_otp p1 sample_distinct,
     where type = "''password-reset''"]
  note accepted = reset_password_same_or_changed
    [OF env0_secret s env0_decode fa password_body_no_otp p2 sample_distinct,
     where type = "''password-reset''"]
  show ?thesis
    using refused accepted others
    by (simp add: Let_def same e fields sample_db_def response.equality)
qed

text \<open>
  Claim C1, as the specification states it, fails on the code: the password branch of
  the route never reads \<open>otp\<close> or \<open>otpExpiry\<close>. \<open>bob\<close> has no challenge outstanding,
  and a request that only carries a new password replaces his stored credential.
\<close>

theorem reset_password_without_challenge_counterexample:
  "otp bob = None \<and> otpExpiry bob = None
   \<and> status (resp (verification_POST env0 sample_db ''bob@b.com'' ''password-reset''
                     (Some (password_body ''secret2'')))) = 200
   \<and> map password (users (verification_POST env0 sample_db ''bob@b.com'' ''password-reset''
                     (Some (password_body ''secret2''))))
     = [Some ''bcrypt:secret1'', Some ''bcrypt:secret2'', None]
   \<and> password bob = Some ''bcrypt:hunter22''"
  by (simp add: verification_POST_def password_flow_def same_password_def
      passwordResetBodySchema_def otpVerificationSchema_def password_body_def
      findOne_email_def findOne_def by_id_def falsy_def set_password_def
      setAuthCookie_def NextResponse_json_def Let_def
      env0_def sample_db_def alice_def bob_def carol_def)

text \<open>
  Claim C1, amended. A password-reset completion request succeeds exactly when the
  new password does not compare equal to the stored credential; no hypothesis on
  \<open>otp\<close> or \<open>otpExpiry\<close> is needed, so the account's credential is replaced whether a
  challenge is outstanding, expired or absent. The second conjunct gives the
  account's document after the request.
\<close>

theorem reset_password_ignores_challenge:
  assumes "JWT_SECRET env = Some secret" "secret \<noteq> []"
    and "decodeURIComponent env rawEmail = Some decoded"
    and "findOne_email env (toLowerCase env decoded) db = Some (Some u)"
    and "otpVerificationSchema b = None"
    and "passwordResetBodySchema b = Some newPassword"
    and "distinct (map oid db)"
  shows "let out = verification_POST env db rawEmail type (Some b)
         in (status (resp out) = 200 \<longleftrightarrow> \<not> same_password env u newPassword)
          \<and> (findOne (by_id (oid u)) (users out) =
               Some (if same_password env u newPassword then u
                     else u\<lparr>password := Some (bcrypt_hash env newPassword),
                            otp := None, otpExpiry := None, emailVerified := True,
                            lastLogin := Some (clock env 0), updatedAt := Some (clock env 1)\<rparr>))"
proof -
  have mem: "u \<in> set db" using assms(4) by (rule findOne_email_in_set)
  show ?thesis
  proof (cases "same_password env u newPassword")
    case True
    then show ?thesis
      unfolding Let_def verification_POST_password [OF assms(1-6)]
      using mem assms(7) by (simp add: password_flow_same findOne_def find_by_id_distinct)
  next
    case False
    have "findOne (by_id (oid u))
            (updateOne (by_id (oid u))
               (set_password (bcrypt_hash env newPassword) (clock env 0) (clock env 1)) db)
          = Some (set_password (bcrypt_hash env newPassword) (clock env 0) (clock env 1) u)"
      using mem assms(7) by (rule findOne_by_id_after_update) (simp add: set_password_def)
    then show ?thesis
      unfolding Let_def verification_POST_password [OF assms(1-6)]
      using False
      by (simp add: password_flow_def Let_def setAuthCookie_def NextResponse_json_def
          set_password_fun)
  qed
qed

theorem reset_password_ignores_challenge_witness:
  "status (resp (verification_POST env0 sample_db ''bob@b.com'' ''password-reset''
                   (Some (password_body ''secret2'')))) = 200
   \<and> findOne (by_id ''65b2'')
       (users (verification_POST env0 sample_db ''bob@b.com'' ''password-reset''
                 (Some (password_body ''secret2''))))
     = Some (bob\<lparr>password := Some ''bcrypt:secret2'', otp := None, otpExpiry := None,
                  emailVerified := True, lastLogin := Some 1000, updatedAt := Some 1001\<rparr>)"
proof -
  have s: "''s3cret'' \<noteq> []" by simp
  have fb: "findOne_email env0 (toLowerCase env0 ''bob@b.com'') sample_db = Some (Some bob)"
    by (simp add: env0_lower sample_find_bob)
  have p2: "passwordResetBodySchema (password_body ''secret2'') = Some ''secret2''"
    by (simp add: password_body_parses)
  have diff: "\<not> same_password env0 bob ''secret2''"
    by (simp add: same_password_def env0_def bob_def)
  have c: "clock env0 0 = 1000" "clock env0 (Suc 0) = 1001"
    "bcrypt_hash env0 ''secret2'' = ''bcrypt:secret2''" "oid bob = ''65b2''"
    by (simp_all add: env0_def bob_def)
  note inst = reset_password_ignores_challenge
    [OF env0_secret s env0_decode fb password_body_no_otp p2 sample_distinct,
     where type = "''password-reset''"]
  show ?thesis
    using inst by (simp add: Let_def diff c)
qed


section \<open>Claims about the delete-account route\<close>

text \<open>With unique ids, \<open>deleteOne\<close> by id removes the document that has the id, if any.\<close>

lemma deleteOne_distinct:
  "distinct (map oid db) \<Longrightarrow>
   deleteOne (by_id k) db =
     (if k \<in> oid ` set db then 1 else 0, filter (\<lambda>v. oid v \<noteq> k) db)"
proof (induction db)
  case Nil
  then show ?case by simp
next
  case (Cons u us)
  show ?case
  proof (cases "oid u = k")
    case True
    with Cons.prems have "k \<notin> oid ` set us" by simp
    then have "\<forall>v \<in> set us. oid v \<noteq> k" by blast
    then have "filter (\<lambda>v. oid v \<noteq> k) us = us" by simp
    with True show ?thesis by (simp add: by_id_def)
  next
    case False
    with Cons show ?thesis by (simp add: by_id_def)
  qed
qed

text \<open>
  Claim C9, as the specification states it, fails on the code in one response path:
  a request with no \<open>token\<close> cookie is an authentication failure (status 401), and
  its response sets no cookie at all.
\<close>

theorem delete_without_token_counterexample:
  "status (resp (delete_account_DELETE env0 sample_db \<lparr>cookie_token = None, client_body = None\<rparr>))
     = 401
   \<and> token_cookie (resp (delete_account_DELETE env0 sample_db
                           \<lparr>cookie_token = None, client_body = None\<rparr>)) = None"
  by (simp add: delete_account_DELETE_def falsy_def unchanged_def error_response_def
      NextResponse_json_def env0_def)





text \<open>
  Claim C9, amended. On a configured server and a collection with unique ids, the
  documents left by a delete-account request are those whose id differs from the id
  in the verified session token (the collection is unchanged when there is no such
  token); what the client sends in the body plays no part; the response is 200 exactly
  when a document had that id. When the request carries a non-empty \<open>token\<close> cookie,
  every response with status 200, 404 or 401 overwrites the cookie: its value is
  empty and it expires at the epoch. When the request carries no \<open>token\<close> cookie, or
  an empty one, the response is 401 and sets no cookie.
\<close>

theorem delete_account_by_session_id:
  assumes "JWT_SECRET env = Some secret" "secret \<noteq> []"
    and "distinct (map oid db)"
  shows "let out = delete_account_DELETE env db req;
             target = session_target env secret req
         in users out = (case target of None \<Rightarrow> db | Some k \<Rightarrow> filter (\<lambda>v. oid v \<noteq> k) db)
          \<and> delete_account_DELETE env db (req\<lparr>client_body := other\<rparr>) = out
          \<and> (status (resp out) = 200 \<longleftrightarrow> (case target of None \<Rightarrow> False | Some k \<Rightarrow> k \<in> oid ` set db))
          \<and> (cookie_token req \<noteq> None \<and> cookie_token req \<noteq> Some [] \<and>
             status (resp out) \<in> {200, 401, 404} \<longrightarrow>
               token_cookie (resp out) =
                 Some \<lparr>cvalue = [], httpOnly = True,
                       secure = (NODE_ENV env = Some ''production''), sameSite = ''lax'',
                       cpath = ''/'', maxAge = None, expires = Some 0\<rparr>)
          \<and> (cookie_token req = None \<or> cookie_token req = Some [] \<longrightarrow>
               status (resp out) = 401 \<and> token_cookie (resp out) = None)"
  using assms
  by (auto simp: delete_account_DELETE_def session_target_def falsy_def unchanged_def
      error_response_def message_response_def NextResponse_json_def clearAuthCookie_def
      revoked_cookie_def production_def deleteOne_distinct Let_def split: option.splits)

theorem delete_account_by_session_id_witness:
  "users (delete_account_DELETE env0 sample_db
            \<lparr>cookie_token = Some ''jwt:65b2'',
             client_body = Some (JObj [(''userId'', JStr ''65a1'')])\<rparr>) = [alice, carol]
   \<and> status (resp (delete_account_DELETE env0 sample_db
            \<lparr>cookie_token = Some ''jwt:65b2'',
             client_body = Some (JObj [(''userId'', JStr ''65a1'')])\<rparr>)) = 200
   \<and> token_cookie (resp (delete_account_DELETE env0 sample_db
            \<lparr>cookie_token = Some ''jwt:65b2'',
             client_body = Some (JObj [(''userId'', JStr ''65a1'')])\<rparr>))
     = Some \<lparr>cvalue = [], httpOnly = True, secure = True, sameSite = ''lax'',
             cpath = ''/'', maxAge = None, expires = Some 0\<rparr>"
proof -
  have s: "''s3cret'' \<noteq> []" by simp
  have t: "session_target env0 ''s3cret''
             \<lparr>cookie_token = Some ''jwt:65b2'',
              client_body = Some (JObj [(''userId'', JStr ''65a1'')])\<rparr> = Some ''65b2''"
    by (simp add: session_target_def env0_def)
  have ids: "map oid sample_db = [''65a1'', ''65b2'', ''65c3'']"
    by (simp add: sample_db_def alice_def bob_def carol_def)
  have f: "filter (\<lambda>v. oid v \<noteq> ''65b2'') sample_db = [alice, carol]"
    by (simp add: sample_db_def alice_def bob_def carol_def)
  have mem: "''65b2'' \<in> oid ` set sample_db"
    using ids by (metis list.set_intros(1,2) set_map)
  have e: "NODE_ENV env0 = Some ''production''" by (simp add: env0_def)
  note inst = delete_account_by_session_id [OF env0_secret s sample_distinct,
     where req = "\<lparr>cookie_token = Some ''jwt:65b2'',
                   client_body = Some (JObj [(''userId'', JStr ''65a1'')])\<rparr>"]
  show ?thesis
    using inst by (simp add: Let_def t f mem e)
qed


section \<open>Claims about sign-in, resend-otp and forgot-password\<close>

text \<open>
  Claim C4 holds for two of the three causes only. On the sample collection, a
  sign-in for an unknown address and a sign-in with a wrong password both answer 401
  with \<open>Invalid credentials\<close>; a sign-in for \<open>carol\<close>, whose account has no password,
  answers 401 with a different message, which tells the caller that the account
  exists.
\<close>

theorem signin_passwordless_message:
  "resp (signin_POST env0 sample_db (Some (signin_body ''dave@b.com'' ''secret1'')))
     = \<lparr>status = 401, body = JObj [(''error'', JStr ''Invalid credentials'')], token_cookie = None\<rparr>
   \<and> resp (signin_POST env0 sample_db (Some (signin_body ''a@b.com'' ''wrong-password'')))
     = \<lparr>status = 401, body = JObj [(''error'', JStr ''Invalid credentials'')], token_cookie = None\<rparr>
   \<and> resp (signin_POST env0 sample_db (Some (signin_body ''carol@b.com'' ''secret1'')))
     = \<lparr>status = 401,
        body = JObj [(''error'', JStr ''Invalid credentials or account created via different method.'')],
        token_cookie = None\<rparr>
   \<and> body (resp (signin_POST env0 sample_db (Some (signin_body ''carol@b.com'' ''secret1''))))
     \<noteq> body (resp (signin_POST env0 sample_db (Some (signin_body ''dave@b.com'' ''secret1''))))"
proof -
  have z: "\<And>e p. CHR ''@'' \<in> set e \<Longrightarrow> 6 \<le> length p \<Longrightarrow>
             signinSchema env0 (signin_body e p) = Inr (e, p)"
    by (simp add: signinSchema_def signin_body_def z_object_def z_email_def z_min_def
        z_string_def env0_def)
  have s: "JWT_SECRET env0 = Some ''s3cret''"
    by (simp add: env0_def)
  have pw: "password alice = Some ''bcrypt:secret1''" "password carol = None"
    "\<not> bcrypt_compare env0 ''wrong-password'' ''bcrypt:secret1''"
    by (simp_all add: alice_def carol_def env0_def)
  show ?thesis
    by (simp add: signin_POST_def s falsy_def z sample_find_nobody sample_find_alice
        sample_find_carol pw unchanged_def error_response_def NextResponse_json_def)
qed




text \<open>
  Claim C3 holds for resend-otp; forgot-password gives the status and the message
  the claim states, but not the delay. On the sample collection resend-otp awaits its
  timer of 1000 ms for a registered address (\<open>a@b.com\<close>) and for an unknown one
  (\<open>dave@b.com\<close>), while forgot-password answers both with status 200 and no timer
  awaited.
\<close>

theorem forgot_password_awaits_no_timer:
  "waited (resend_otp_POST env0 sample_db (Some (resend_body ''a@b.com'' ''password-reset''))) = 1000
   \<and> waited (resend_otp_POST env0 sample_db (Some (resend_body ''dave@b.com'' ''password-reset''))) = 1000
   \<and> waited (forgot_password_POST env0 sample_db (Some (forgot_body ''a@b.com''))) = 0
   \<and> status (resp (forgot_password_POST env0 sample_db (Some (forgot_body ''a@b.com'')))) = 200
   \<and> waited (forgot_password_POST env0 sample_db (Some (forgot_body ''dave@b.com''))) = 0
   \<and> status (resp (forgot_password_POST env0 sample_db (Some (forgot_body ''dave@b.com'')))) = 200"
proof -
  have zr: "\<And>e. CHR ''@'' \<in> set e \<Longrightarrow>
              resendOtpSchema env0 (resend_body e ''password-reset'') = Inr (e, ''password-reset'')"
    by (simp add: resendOtpSchema_def resend_body_def z_object_def z_email_def z_type_def
        z_string_def env0_def)
  have zf: "\<And>e. CHR ''@'' \<in> set e \<Longrightarrow> forgotPasswordSchema env0 (forgot_body e) = Inr e"
    by (simp add: forgotPasswordSchema_def forgot_body_def z_object_def z_email_def
        z_string_def env0_def)
  have g: "generateOTP env0 \<noteq> None" by (simp add: generateOTP_def env0_def)
  show ?thesis
    using g
    by (auto simp: resend_otp_POST_def forgot_password_POST_def zr zf sample_find_nobody
        sample_find_alice unchanged_def message_response_def NextResponse_json_def)
qed

text \<open>
  What both routes do give: for a request that passes validation, while the store
  answers the lookup and the random source is available, each answers 200 with one
  fixed message, whatever the collection holds, and resend-otp awaits its timer.
\<close>

lemma generic_responses:
  assumes "regex_i env (''^'' @ e @ ''$'') = Some matches"
    and "randomBytes env = Some bytes"
  shows "(resendOtpSchema env b = Inr (e, type) \<longrightarrow>
            resp (resend_otp_POST env db (Some b)) =
              \<lparr>status = 200,
               body = JObj [(''message'',
                   JStr ''If an account with that email exists, a new OTP has been sent.'')],
               token_cookie = None\<rparr>
          \<and> waited (resend_otp_POST env db (Some b)) = 1000)
       \<and> (forgotPasswordSchema env b' = Inr e \<longrightarrow>
            resp (forgot_password_POST env db (Some b')) =
              \<lparr>status = 200,
               body = JObj [(''message'',
                   JStr ''If your email is registered, a password reset code has been sent.'')],
               token_cookie = None\<rparr>)"
proof -
  have g: "generateOTP env \<noteq> None" using assms(2) by (simp add: generateOTP_def)
  obtain found where f: "findOne_email env e db = Some found"
    using assms(1) by (simp add: findOne_email_def)
  show ?thesis
    using g f
    by (cases found)
       (auto simp: resend_otp_POST_def forgot_password_POST_def resend_message_def
          forgot_message_def message_response_def NextResponse_json_def unchanged_def)
qed

lemma generic_responses_sample:
  "resp (resend_otp_POST env0 sample_db (Some (resend_body ''a@b.com'' ''signup'')))
     = resp (resend_otp_POST env0 sample_db (Some (resend_body ''dave@b.com'' ''signup'')))
   \<and> status (resp (resend_otp_POST env0 sample_db (Some (resend_body ''a@b.com'' ''signup'')))) = 200
   \<and> waited (resend_otp_POST env0 sample_db (Some (resend_body ''a@b.com'' ''signup''))) = 1000
   \<and> waited (resend_otp_POST env0 sample_db (Some (resend_body ''dave@b.com'' ''signup''))) = 1000
   \<and> resp (forgot_password_POST env0 sample_db (Some (forgot_body ''a@b.com'')))
     = resp (forgot_password_POST env0 sample_db (Some (forgot_body ''dave@b.com'')))
   \<and> status (resp (forgot_password_POST env0 sample_db (Some (forgot_body ''a@b.com'')))) = 200"
proof -
  have zr: "\<And>e. CHR ''@'' \<in> set e \<Longrightarrow>
              resendOtpSchema env0 (resend_body e ''signup'') = Inr (e, ''signup'')"
    by (simp add: resendOtpSchema_def resend_body_def z_object_def z_email_def z_type_def
        z_string_def env0_def)
  have zf: "\<And>e. CHR ''@'' \<in> set e \<Longrightarrow> forgotPasswordSchema env0 (forgot_body e) = Inr e"
    by (simp add: forgotPasswordSchema_def forgot_body_def z_object_def z_email_def
        z_string_def env0_def)
  have r: "\<And>e. regex_i env0 (''^'' @ e @ ''$'') = Some (\<lambda>s. ''^'' @ e @ ''$'' = ''^'' @ s @ ''$'')"
    by (simp add: env0_def)
  have rb: "randomBytes env0 = Some 123456789" by (simp add: env0_def)
  note a = generic_responses [OF r rb, where e = "''a@b.com''" and db = sample_db
      and b = "resend_body ''a@b.com'' ''signup''" and type = "''signup''"
      and b' = "forgot_body ''a@b.com''"]
  note d = generic_responses [OF r rb, where e = "''dave@b.com''" and db = sample_db
      and b = "resend_body ''dave@b.com'' ''signup''" and type = "''signup''"
      and b' = "forgot_body ''dave@b.com''"]
  show ?thesis
    using a d by (simp add: zr zf)
qed

section \<open>The pairing of \<open>otp\<close> and \<open>otpExpiry\<close>\<close>

lemma set_updateOne:
  "v' \<in> set (updateOne p f db) \<Longrightarrow> v' \<in> set db \<or> (\<exists>v \<in> set db. v' = f v)"
  by (induction db) (auto split: if_splits)

lemma set_deleteOne: "v' \<in> set (snd (deleteOne p db)) \<Longrightarrow> v' \<in> set db"
  by (induction db) (auto split: if_splits prod.splits)

lemma otp_step_refl: "otp_step db db"
  by (auto simp: otp_step_def list_all_iff list_ex_iff)

lemma otp_step_delete: "otp_step db (snd (deleteOne p db))"
  by (auto simp: otp_step_def list_all_iff list_ex_iff dest: set_deleteOne)

lemma otp_step_update:
  assumes "\<And>v. (otp (f v) = otp v \<and> otpExpiry (f v) = otpExpiry v)
             \<or> (otp (f v) = None \<and> otpExpiry (f v) = None)
             \<or> (otp (f v) \<noteq> None \<and> otpExpiry (f v) \<noteq> None)"
  shows "otp_step db (updateOne p f db)"
  unfolding otp_step_def list_all_iff list_ex_iff
proof
  fix v' assume "v' \<in> set (updateOne p f db)"
  then consider "v' \<in> set db" | v where "v \<in> set db" "v' = f v"
    by (auto dest: set_updateOne)
  then show "(\<exists>v \<in> set db. otp v' = otp v \<and> otpExpiry v' = otpExpiry v)
             \<or> (otp v' = None \<and> otpExpiry v' = None)
             \<or> (otp v' \<noteq> None \<and> otpExpiry v' \<noteq> None)"
  proof cases
    case 1
    then show ?thesis by blast
  next
    case 2
    with assms [of v] show ?thesis by blast
  qed
qed

lemma otp_step_set_otp: "otp_step db (updateOne p (set_otp newOtp expiry t) db)"
  by (rule otp_step_update) (simp add: set_otp_def)

lemma otp_step_set_login: "otp_step db (updateOne p (set_login t1 t2) db)"
  by (rule otp_step_update) (simp add: set_login_def)

lemma otp_step_set_verified: "otp_step db (updateOne p (set_verified t1 t2) db)"
  by (rule otp_step_update) (simp add: set_verified_def)

lemma otp_step_set_password: "otp_step db (updateOne p (set_password h t1 t2) db)"
  by (rule otp_step_update) (simp add: set_password_def)

lemmas otp_steps =
  otp_step_refl otp_step_delete otp_step_set_otp otp_step_set_login otp_step_set_verified
  otp_step_set_password

lemma users_unchanged [simp]: "users (unchanged db r) = db"
  by (simp add: unchanged_def)

lemma signin_step: "otp_step db (users (signin_POST env db b))"
  by (simp add: signin_POST_def otp_steps split: option.split sum.split prod.split)

lemma otp_flow_step: "otp_step db (users (otp_flow env db secret e type u submitted))"
  by (simp add: otp_flow_def Let_def otp_steps split: option.split)

lemma password_flow_step: "otp_step db (users (password_flow env db secret e u newPassword))"
  by (simp add: password_flow_def Let_def otp_steps split: option.split)

lemma verification_step: "otp_step db (users (verification_POST env db rawEmail type b))"
  by (simp add: verification_POST_def Let_def otp_steps otp_flow_step password_flow_step
      split: option.split)

lemma resend_step: "otp_step db (users (resend_otp_POST env db b))"
  by (simp add: resend_otp_POST_def otp_steps split: option.split sum.split prod.split)

lemma forgot_step: "otp_step db (users (forgot_password_POST env db b))"
  by (simp add: forgot_password_POST_def otp_steps split: option.split sum.split)

lemma otp_step_deleted: "deleteOne p db = (n, db') \<Longrightarrow> otp_step db db'"
  using otp_step_delete [of db p] by simp

lemma delete_step: "otp_step db (users (delete_account_DELETE env db r))"
  by (auto simp: delete_account_DELETE_def otp_steps split: option.split prod.split
      intro: otp_step_deleted)

text \<open>
  Claim C10. Every operation (sign-in, verification, resend-otp, forgot-password,
  delete-account) takes the collection to one in which each document has the two
  fields of a document that was there before, or both fields null, or both non-null:
  no update sets or clears one of them alone. Hence the invariant that \<open>otp\<close> and
  \<open>otpExpiry\<close> are null together is preserved.
\<close>

theorem otp_pairing_preserved:
  "otp_step db (users (handle env db req))
   \<and> (list_all otp_paired db \<longrightarrow> list_all otp_paired (users (handle env db req)))"
proof -
  have step: "otp_step db (users (handle env db req))"
    by (cases req)
       (simp_all add: signin_step verification_step resend_step forgot_step delete_step)
  moreover have "list_all otp_paired (users (handle env db req))" if "list_all otp_paired db"
    using step that
    unfolding otp_step_def list_all_iff list_ex_iff otp_paired_def
    by (metis option.distinct(1))
  ultimately show ?thesis by blast
qed

theorem otp_pairing_preserved_witness:
  "list_all otp_paired sample_db
   \<and> list_all otp_paired (users (handle env0 sample_db (ForgotPassword (Some (forgot_body ''bob@b.com'')))))
   \<and> list_all otp_paired (users (handle env0 sample_db
        (Verification ''a@b.com'' ''signup'' (Some (otp_body ''123456'')))))"
proof -
  have inv: "list_all otp_paired sample_db"
    by (simp add: otp_paired_def sample_db_def alice_def bob_def carol_def)
  note f = otp_pairing_preserved [of sample_db env0 "ForgotPassword (Some (forgot_body ''bob@b.com''))",
      THEN conjunct2, rule_format, OF inv]
  note v = otp_pairing_preserved [of sample_db env0
      "Verification ''a@b.com'' ''signup'' (Some (otp_body ''123456''))",
      THEN conjunct2, rule_format, OF inv]
  show ?thesis using inv f v by simp
qed


section \<open>Unique ids are kept\<close>

text \<open>
  Several theorems above assume that no two documents share an \<open>_id\<close>, as the store
  guarantees. No operation breaks this: an update never writes \<open>_id\<close>, and a delete
  only removes a document.
\<close>

lemma map_oid_updateOne:
  "(\<And>v. oid (f v) = oid v) \<Longrightarrow> map oid (updateOne p f db) = map oid db"
  by (induction db) auto

lemma distinct_deleteOne:
  "distinct (map oid db) \<Longrightarrow> deleteOne p db = (n, db') \<Longrightarrow> distinct (map oid db')"
proof (induction db arbitrary: n db')
  case Nil
  then show ?case by simp
next
  case (Cons u us)
  show ?case
  proof (cases "p u")
    case True
    with Cons.prems show ?thesis by auto
  next
    case False
    obtain m us' where d: "deleteOne p us = (m, us')" by (cases "deleteOne p us")
    with Cons.prems False have db': "db' = u # us'" by simp
    have "set us' \<subseteq> set us" using set_deleteOne [of _ p us] d by auto
    moreover have "distinct (map oid us')" using Cons.IH [OF _ d] Cons.prems(1) by simp
    ultimately show ?thesis using Cons.prems(1) db' by auto
  qed
qed

lemmas oid_kept =
  map_oid_updateOne [where f = "set_otp newOtp expiry t" for newOtp expiry t]
  map_oid_updateOne [where f = "set_login t1 t2" for t1 t2]
  map_oid_updateOne [where f = "set_verified t1 t2" for t1 t2]
  map_oid_updateOne [where f = "set_password h t1 t2" for h t1 t2]

lemma unique_ids_preserved:
  assumes "distinct (map oid db)"
  shows "distinct (map oid (users (handle env db req)))"
proof (cases req)
  case (SignIn b)
  with assms show ?thesis
    by (simp add: signin_POST_def oid_kept set_otp_def set_login_def
        split: option.split sum.split prod.split)
next
  case (Verification rawEmail type b)
  with assms show ?thesis
    by (simp add: verification_POST_def otp_flow_def password_flow_def Let_def oid_kept
        set_verified_def set_password_def split: option.split)
next
  case (ResendOtp b)
  with assms show ?thesis
    by (simp add: resend_otp_POST_def oid_kept set_otp_def
        split: option.split sum.split prod.split)
next
  case (ForgotPassword b)
  with assms show ?thesis
    by (simp add: forgot_password_POST_def oid_kept set_otp_def split: option.split sum.split)
next
  case (DeleteAccount r)
  with assms show ?thesis
    by (auto simp: delete_account_DELETE_def split: option.split prod.split
        intro: distinct_deleteOne)
qed


end
